theory Spec2Isabelle
  imports Main "HOL-Library.Word"
begin

section \<open>JavaScript strings and buffers\<close>

text \<open>
  A JavaScript string is a sequence of UTF-16 code units, so it is modelled as a list of
  16-bit words: \<open>charAt\<close>, \<open>slice\<close>, \<open>includes\<close> and \<open>startsWith\<close> all count code
  units. ASCII literals of the source are written \<open>js ''...''\<close>; the emoji of the source
  are written as their code units. A \<open>Buffer\<close> is a list of bytes.
\<close>

type_synonym jsstring = "16 word list"
type_synonym bytes = "8 word list"

definition js :: "string \<Rightarrow> jsstring" where
  "js s = map of_char s"

text \<open>\<open>s.startsWith(p)\<close>\<close>

fun startsWith :: "jsstring \<Rightarrow> jsstring \<Rightarrow> bool" where
  "startsWith s [] = True"
| "startsWith [] (p # ps) = False"
| "startsWith (c # cs) (p # ps) = (c = p \<and> startsWith cs ps)"

text \<open>\<open>s.includes(n)\<close>: case-sensitive substring search.\<close>

fun js_includes :: "jsstring \<Rightarrow> jsstring \<Rightarrow> bool" where
  "js_includes [] n = (n = [])"
| "js_includes (c # cs) n = (startsWith (c # cs) n \<or> js_includes cs n)"

text \<open>\<open>n.toString()\<close> of a non-negative integer: its decimal digits.\<close>

fun toString_nat :: "nat \<Rightarrow> jsstring" where
  "toString_nat n =
     (if n < 10 then [48 + of_nat n]
      else toString_nat (n div 10) @ [48 + of_nat (n mod 10)])"

declare toString_nat.simps [simp del]

definition toString_int :: "int \<Rightarrow> jsstring" where
  "toString_int i = (if i < 0 then 45 # toString_nat (nat (- i)) else toString_nat (nat i))"

text \<open>\<open>s.slice(-k)\<close>: the last \<open>k\<close> code units, the whole string when it is shorter.\<close>

definition slice_last :: "nat \<Rightarrow> jsstring \<Rightarrow> jsstring" where
  "slice_last k s = drop (length s - k) s"

text \<open>\<open>s.replace(p, r)\<close> with a string pattern: the first occurrence only.\<close>

fun replace_first :: "jsstring \<Rightarrow> jsstring \<Rightarrow> jsstring \<Rightarrow> jsstring" where
  "replace_first [] p r = (if p = [] then r else [])"
| "replace_first (c # cs) p r =
     (if startsWith (c # cs) p then r @ drop (length p) (c # cs)
      else c # replace_first cs p r)"

text \<open>\<open>s.split(d)\<close> with a separator of one code unit.\<close>

fun split_on :: "16 word \<Rightarrow> jsstring \<Rightarrow> jsstring list" where
  "split_on d [] = [[]]"
| "split_on d (c # cs) =
     (if c = d then [] # split_on d cs
      else (case split_on d cs of
              [] \<Rightarrow> [[c]]
            | p # ps \<Rightarrow> (c # p) # ps))"

text \<open>Truthiness: a string is truthy unless empty, a number unless zero;
  \<open>null\<close> and \<open>undefined\<close> are \<open>None\<close>.\<close>

definition truthy_str :: "jsstring option \<Rightarrow> bool" where
  "truthy_str x = (case x of None \<Rightarrow> False | Some v \<Rightarrow> v \<noteq> [])"

definition truthy_num :: "int option \<Rightarrow> bool" where
  "truthy_num x = (case x of None \<Rightarrow> False | Some v \<Rightarrow> v \<noteq> 0)"

section \<open>Configuration, module state and the outside world\<close>

text \<open>An \<open>Error\<close> object is its message.\<close>

datatype error = Error (message: jsstring)

text \<open>The option objects handed to the destination client's send methods
  (an absent \<open>disable_web_page_preview\<close> is \<open>False\<close>).\<close>

record options =
  message_thread_id :: "int option"
  parse_mode :: "jsstring option"
  disable_web_page_preview :: bool
  reply_to_message_id :: "int option"
  caption :: "jsstring option"

datatype media_kind = Animation | Sticker | Photo

text \<open>The four fixed ffmpeg command lines of the module (lines 50, 85, 91 and 132).\<close>

datatype ffmpeg_job = WebPToMP4 | StickerToWebPAnimated | StickerToWebPStatic | VideoToNote

text \<open>
  Every call that leaves the process is recorded, in order:
  \<open>telegramBot.sendMessage\<close>, \<open>sendAnimation\<close>/\<open>sendSticker\<close>/\<open>sendPhoto\<close>,
  \<open>createForumTopic\<close>, \<open>pinChatMessage\<close> (with whether \<open>disable_notification\<close> was passed),
  \<open>DatabaseOps.saveTelegramTopic\<close>, \<open>global.bot.fetchStatus\<close>, \<open>profilePictureUrl\<close>,
  \<open>global.bot.sendMessage\<close> with a reaction (jid, reaction text, key id), the
  \<open>setMessageReaction\<close> request of \<open>setReaction\<close>, \<open>Date.now()\<close>, and
  \<open>execSync\<close> of ffmpeg (job, input file, output file).
\<close>

datatype event =
    SendMessage int jsstring options
  | SendMedia media_kind int bytes options
  | CreateForumTopic int jsstring int
  | PinChatMessage int int bool
  | SaveTelegramTopic jsstring int jsstring
  | FetchStatus jsstring
  | ProfilePictureUrl jsstring
  | SendReaction jsstring jsstring jsstring
  | SetMessageReaction int int jsstring
  | DateNow
  | ExecSync ffmpeg_job jsstring jsstring

text \<open>
  The outside world answers each call as a function of the calls made so far and of the
  call's arguments. A send answers with an error or with the sent message's \<open>message_id\<close>
  (\<open>None\<close> when the result is falsy or has none); \<open>createForumTopic\<close> likewise with the
  \<open>message_thread_id\<close>. The answer of \<open>profilePictureUrl\<close> is never read. ffmpeg
  answers with an optional failure and may change the files in any way.
  \<open>fs.writeFileSync\<close> may fail.
\<close>

record env =
  tg_sendMessage :: "event list \<Rightarrow> int \<Rightarrow> jsstring \<Rightarrow> options \<Rightarrow> error + int option"
  tg_sendMedia :: "event list \<Rightarrow> media_kind \<Rightarrow> int \<Rightarrow> bytes \<Rightarrow> options \<Rightarrow> error + int option"
  tg_createForumTopic :: "event list \<Rightarrow> int \<Rightarrow> jsstring \<Rightarrow> int \<Rightarrow> error + int option"
  tg_pinChatMessage :: "event list \<Rightarrow> int \<Rightarrow> int \<Rightarrow> bool \<Rightarrow> error option"
  db_saveTelegramTopic :: "event list \<Rightarrow> jsstring \<Rightarrow> int \<Rightarrow> jsstring \<Rightarrow> error option"
  wa_fetchStatus :: "event list \<Rightarrow> jsstring \<Rightarrow> jsstring option"
  wa_sendMessage :: "event list \<Rightarrow> jsstring \<Rightarrow> jsstring \<Rightarrow> jsstring \<Rightarrow> error option"
  axios_setMessageReaction :: "event list \<Rightarrow> int \<Rightarrow> int \<Rightarrow> jsstring \<Rightarrow> bool"
  date_now :: "event list \<Rightarrow> nat"
  fs_write_error :: "event list \<Rightarrow> jsstring \<Rightarrow> error option"
  ffmpeg_run :: "event list \<Rightarrow> ffmpeg_job \<Rightarrow> jsstring \<Rightarrow> jsstring \<Rightarrow>
                 (jsstring \<rightharpoonup> bytes) \<Rightarrow> error option \<times> (jsstring \<rightharpoonup> bytes)"

text \<open>\<open>config.telegram\<close>, the module constant \<open>ffmpegAvailable\<close> (line 31) and the
  directory \<open>path.join(__dirname, "..", "temp")\<close>.\<close>

record config =
  createTopics :: bool
  groupId :: int
  ffmpegAvailable :: bool
  tempDir :: jsstring

text \<open>The module's variables (lines 9 to 18), whether \<open>global.bot\<close> is set, the files and
  directories on disk, and the record of calls.\<close>

record state =
  telegramBot :: bool
  waBot :: bool
  topicMapping :: "jsstring \<rightharpoonup> int"
  reverseTopicMapping :: "int \<rightharpoonup> jsstring"
  statusTopicId :: "int option"
  callTopicId :: "int option"
  contactsCache :: "jsstring \<rightharpoonup> jsstring"
  pinnedMessages :: "int \<rightharpoonup> int"
  statusMessageMapping :: "int \<rightharpoonup> jsstring"
  chatMessageMapping :: "int \<rightharpoonup> jsstring"
  files :: "jsstring \<rightharpoonup> bytes"
  dirs :: "jsstring set"
  history :: "event list"

definition emit :: "event \<Rightarrow> state \<Rightarrow> state" where
  "emit e s = s\<lparr>history := history s @ [e]\<rparr>"

definition Date_now :: "env \<Rightarrow> state \<Rightarrow> nat \<times> state" where
  "Date_now E s = (date_now E (history s), emit DateNow s)"

section \<open>The file system and the transcoders (lines 33 to 151)\<close>

text \<open>
  \<open>fs.readFileSync\<close> and \<open>fs.unlinkSync\<close> fail on a missing file and on nothing else;
  \<open>fs.writeFileSync\<close> fails when the world says so, leaving the files as they were;
  \<open>fs.mkdirSync\<close> with \<open>recursive\<close> succeeds.
\<close>

definition enoent :: error where
  "enoent = Error (js ''ENOENT: no such file or directory'')"

definition fs_writeFileSync :: "env \<Rightarrow> jsstring \<Rightarrow> bytes \<Rightarrow> state \<Rightarrow> error option \<times> state" where
  "fs_writeFileSync E p b s =
     (case fs_write_error E (history s) p of
        Some e \<Rightarrow> (Some e, s)
      | None \<Rightarrow> (None, s\<lparr>files := (files s)(p \<mapsto> b)\<rparr>))"

definition fs_readFileSync :: "jsstring \<Rightarrow> state \<Rightarrow> error + bytes" where
  "fs_readFileSync p s = (case files s p of None \<Rightarrow> Inl enoent | Some b \<Rightarrow> Inr b)"

definition fs_unlinkSync :: "jsstring \<Rightarrow> state \<Rightarrow> error option \<times> state" where
  "fs_unlinkSync p s =
     (case files s p of
        None \<Rightarrow> (Some enoent, s)
      | Some b \<Rightarrow> (None, s\<lparr>files := (files s)(p := None)\<rparr>))"

definition fs_existsSync :: "jsstring \<Rightarrow> state \<Rightarrow> bool" where
  "fs_existsSync p s = (files s p \<noteq> None)"

definition execSync :: "env \<Rightarrow> ffmpeg_job \<Rightarrow> jsstring \<Rightarrow> jsstring \<Rightarrow> state \<Rightarrow> error option \<times> state" where
  "execSync E job inputFile outputFile s =
     (case ffmpeg_run E (history s) job inputFile outputFile (files s) of
        (r, fs') \<Rightarrow> (r, emit (ExecSync job inputFile outputFile) (s\<lparr>files := fs'\<rparr>)))"

text \<open>Lines 39 to 45 (70 to 76, 118 to 124): the temp directory is made if missing, and
  the two scratch names each take their own \<open>Date.now()\<close>.\<close>

definition scratchFiles ::
  "config \<Rightarrow> env \<Rightarrow> jsstring \<Rightarrow> jsstring \<Rightarrow> state \<Rightarrow> (jsstring \<times> jsstring) \<times> state" where
  "scratchFiles C E inExt outExt s =
     (let s0 = (if tempDir C \<in> dirs s then s else s\<lparr>dirs := insert (tempDir C) (dirs s)\<rparr>)
      in case Date_now E s0 of (t1, s1) \<Rightarrow>
         (case Date_now E s1 of (t2, s2) \<Rightarrow>
            ((tempDir C @ js ''/input_'' @ toString_nat t1 @ js ''.'' @ inExt,
              tempDir C @ js ''/output_'' @ toString_nat t2 @ js ''.'' @ outExt), s2)))"

text \<open>The body of the \<open>try\<close> block, the same in the three transcoders: write the input,
  run ffmpeg, read the output, unlink both, return the output bytes. The first failure
  leaves the block.\<close>

definition transcode_try ::
  "env \<Rightarrow> ffmpeg_job \<Rightarrow> jsstring \<Rightarrow> jsstring \<Rightarrow> bytes \<Rightarrow> state \<Rightarrow> (error + bytes) \<times> state" where
  "transcode_try E job inputFile outputFile buf s =
     (case fs_writeFileSync E inputFile buf s of
        (Some e, s1) \<Rightarrow> (Inl e, s1)
      | (None, s1) \<Rightarrow>
     (case execSync E job inputFile outputFile s1 of
        (Some e, s2) \<Rightarrow> (Inl e, s2)
      | (None, s2) \<Rightarrow>
     (case fs_readFileSync outputFile s2 of
        Inl e \<Rightarrow> (Inl e, s2)
      | Inr out \<Rightarrow>
     (case fs_unlinkSync inputFile s2 of
        (Some e, s3) \<Rightarrow> (Inl e, s3)
      | (None, s3) \<Rightarrow>
     (case fs_unlinkSync outputFile s3 of
        (Some e, s4) \<Rightarrow> (Inl e, s4)
      | (None, s4) \<Rightarrow> (Inr out, s4))))))"

text \<open>The start of the \<open>catch\<close> block, the same in the three transcoders: each scratch
  file is unlinked if it exists. An unlink that failed would leave the block.\<close>

definition transcode_cleanup :: "jsstring \<Rightarrow> jsstring \<Rightarrow> state \<Rightarrow> error option \<times> state" where
  "transcode_cleanup inputFile outputFile s =
     (case (if fs_existsSync inputFile s then fs_unlinkSync inputFile s else (None, s)) of
        (Some e, s1) \<Rightarrow> (Some e, s1)
      | (None, s1) \<Rightarrow>
          (if fs_existsSync outputFile s1 then fs_unlinkSync outputFile s1 else (None, s1)))"

definition ffmpeg_missing :: error where
  "ffmpeg_missing = Error (js ''FFmpeg not available for animated sticker conversion'')"

definition convertAnimatedWebPToMP4 ::
  "config \<Rightarrow> env \<Rightarrow> bytes \<Rightarrow> state \<Rightarrow> (error + bytes) \<times> state" where
  "convertAnimatedWebPToMP4 C E webpBuffer s =
     (if \<not> ffmpegAvailable C then (Inl ffmpeg_missing, s)
      else case scratchFiles C E (js ''webp'') (js ''mp4'') s of ((inputFile, outputFile), s1) \<Rightarrow>
        (case transcode_try E WebPToMP4 inputFile outputFile webpBuffer s1 of
           (Inr mp4Buffer, s2) \<Rightarrow> (Inr mp4Buffer, s2)
         | (Inl error, s2) \<Rightarrow>
             (case transcode_cleanup inputFile outputFile s2 of
                (Some e, s3) \<Rightarrow> (Inl e, s3)
              | (None, s3) \<Rightarrow> (Inl error, s3))))"

definition convertTelegramStickerToWebP ::
  "config \<Rightarrow> env \<Rightarrow> bytes \<Rightarrow> bool \<Rightarrow> state \<Rightarrow> (error + bytes) \<times> state" where
  "convertTelegramStickerToWebP C E stickerBuffer isAnimated s =
     (if \<not> ffmpegAvailable C \<and> isAnimated then (Inl ffmpeg_missing, s)
      else case scratchFiles C E (if isAnimated then js ''webm'' else js ''webp'') (js ''webp'') s of
        ((inputFile, outputFile), s1) \<Rightarrow>
        (case transcode_try E (if isAnimated then StickerToWebPAnimated else StickerToWebPStatic)
                inputFile outputFile stickerBuffer s1 of
           (Inr webpBuffer, s2) \<Rightarrow> (Inr webpBuffer, s2)
         | (Inl error, s2) \<Rightarrow>
             (case transcode_cleanup inputFile outputFile s2 of
                (Some e, s3) \<Rightarrow> (Inl e, s3)
              | (None, s3) \<Rightarrow> (Inl error, s3))))"

definition convertToVideoNote ::
  "config \<Rightarrow> env \<Rightarrow> bytes \<Rightarrow> state \<Rightarrow> (error + bytes) \<times> state" where
  "convertToVideoNote C E videoBuffer s =
     (if \<not> ffmpegAvailable C then (Inr videoBuffer, s)
      else case scratchFiles C E (js ''mp4'') (js ''mp4'') s of ((inputFile, outputFile), s1) \<Rightarrow>
        (case transcode_try E VideoToNote inputFile outputFile videoBuffer s1 of
           (Inr videoNoteBuffer, s2) \<Rightarrow> (Inr videoNoteBuffer, s2)
         | (Inl error, s2) \<Rightarrow>
             (case transcode_cleanup inputFile outputFile s2 of
                (Some e, s3) \<Rightarrow> (Inl e, s3)
              | (None, s3) \<Rightarrow> (Inr videoBuffer, s3))))"

section \<open>The destination client\<close>

text \<open>
  \<open>telegramBot\<close> starts as \<open>null\<close> (line 9); a method call on it then raises a
  \<open>TypeError\<close> before anything is sent.
\<close>

definition nullBot :: "string \<Rightarrow> error" where
  "nullBot method =
     Error (js ''Cannot read properties of null (reading '' @ [39] @ js method @ [39, 41])"

definition sendMethod :: "media_kind \<Rightarrow> string" where
  "sendMethod kind =
     (case kind of Animation \<Rightarrow> ''sendAnimation'' | Sticker \<Rightarrow> ''sendSticker''
      | Photo \<Rightarrow> ''sendPhoto'')"

definition telegramBot_sendMessage ::
  "env \<Rightarrow> int \<Rightarrow> jsstring \<Rightarrow> options \<Rightarrow> state \<Rightarrow> (error + int option) \<times> state" where
  "telegramBot_sendMessage E chatId txt opts s =
     (if \<not> telegramBot s
      then (Inl (nullBot ''sendMessage''), s)
      else (tg_sendMessage E (history s) chatId txt opts, emit (SendMessage chatId txt opts) s))"

definition telegramBot_sendMedia ::
  "env \<Rightarrow> media_kind \<Rightarrow> int \<Rightarrow> bytes \<Rightarrow> options \<Rightarrow> state \<Rightarrow> (error + int option) \<times> state" where
  "telegramBot_sendMedia E kind chatId buf opts s =
     (if \<not> telegramBot s
      then (Inl (nullBot (sendMethod kind)), s)
      else (tg_sendMedia E (history s) kind chatId buf opts,
            emit (SendMedia kind chatId buf opts) s))"

definition telegramBot_createForumTopic ::
  "env \<Rightarrow> int \<Rightarrow> jsstring \<Rightarrow> int \<Rightarrow> state \<Rightarrow> (error + int option) \<times> state" where
  "telegramBot_createForumTopic E chatId name color s =
     (if \<not> telegramBot s
      then (Inl (nullBot ''createForumTopic''), s)
      else (tg_createForumTopic E (history s) chatId name color,
            emit (CreateForumTopic chatId name color) s))"

definition telegramBot_pinChatMessage ::
  "env \<Rightarrow> int \<Rightarrow> int \<Rightarrow> bool \<Rightarrow> state \<Rightarrow> error option \<times> state" where
  "telegramBot_pinChatMessage E chatId messageId quiet s =
     (if \<not> telegramBot s
      then (Some (nullBot ''pinChatMessage''), s)
      else (tg_pinChatMessage E (history s) chatId messageId quiet,
            emit (PinChatMessage chatId messageId quiet) s))"

definition saveTelegramTopic ::
  "env \<Rightarrow> jsstring \<Rightarrow> int \<Rightarrow> jsstring \<Rightarrow> state \<Rightarrow> error option \<times> state" where
  "saveTelegramTopic E identifier threadId displayName s =
     (db_saveTelegramTopic E (history s) identifier threadId displayName,
      emit (SaveTelegramTopic identifier threadId displayName) s)"

section \<open>Contact names and pinned info messages (lines 192 to 335)\<close>

definition getContactName :: "jsstring \<Rightarrow> jsstring \<Rightarrow> state \<Rightarrow> jsstring \<times> state" where
  "getContactName whatsappNumber fallbackName s =
     (if truthy_str (contactsCache s whatsappNumber)
      then (case contactsCache s whatsappNumber of Some n \<Rightarrow> (n, s) | None \<Rightarrow> ([], s))
      else let finalName = (if fallbackName \<noteq> [] then fallbackName
                            else js ''Contact '' @ whatsappNumber)
           in (finalName, s\<lparr>contactsCache := (contactsCache s)(whatsappNumber \<mapsto> finalName)\<rparr>))"

text \<open>\<open>getUserInfo\<close>: \<open>None\<close> is the \<open>null\<close> result; otherwise the \<open>about\<close> field. Both
  look-ups swallow their failures.\<close>

definition getUserInfo :: "env \<Rightarrow> jsstring \<Rightarrow> state \<Rightarrow> jsstring option option \<times> state" where
  "getUserInfo E whatsappNumber s =
     (if \<not> waBot s then (None, s)
      else let jid = whatsappNumber @ js ''@s.whatsapp.net'';
               status = wa_fetchStatus E (history s) jid;
               s1 = emit (FetchStatus jid) s;
               about = (if truthy_str status then status else None);
               s2 = emit (ProfilePictureUrl jid) s1
           in (Some about, s2))"

definition infoOptions :: "int \<Rightarrow> options" where
  "infoOptions topicId =
     \<lparr>message_thread_id = Some topicId, parse_mode = Some (js ''Markdown''),
      disable_web_page_preview = True, reply_to_message_id = None, caption = None\<rparr>"

definition userInfoText :: "jsstring \<Rightarrow> jsstring \<Rightarrow> jsstring option option \<Rightarrow> jsstring" where
  "userInfoText contactName whatsappNumber userInfo =
     [0xD83D, 0xDC64] @ js '' *Contact Information*'' @ [10, 10]
     @ [0xD83D, 0xDCDD] @ js '' *Name:* '' @ contactName @ [10]
     @ [0xD83D, 0xDCDE] @ js '' *WhatsApp:* +'' @ whatsappNumber @ [10]
     @ (case userInfo of
          Some (Some about) \<Rightarrow> [0xD83D, 0xDCAC] @ js '' *About:* '' @ about @ [10]
        | _ \<Rightarrow> [])
     @ [10, 0xD83D, 0xDD04] @ js '' *Reply to this topic to send messages to WhatsApp*''"

definition createAndPinUserInfo ::
  "config \<Rightarrow> env \<Rightarrow> int \<Rightarrow> jsstring \<Rightarrow> jsstring \<Rightarrow> state \<Rightarrow> state" where
  "createAndPinUserInfo C E topicId contactName whatsappNumber s =
     (if truthy_num (pinnedMessages s topicId) then s
      else case getUserInfo E whatsappNumber s of (userInfo, s1) \<Rightarrow>
        (case telegramBot_sendMessage E (groupId C)
                (userInfoText contactName whatsappNumber userInfo) (infoOptions topicId) s1 of
           (Inl error, s2) \<Rightarrow> s2
         | (Inr infoMessage, s2) \<Rightarrow>
             (case infoMessage of
                None \<Rightarrow> s2
              | Some messageId \<Rightarrow>
                  if messageId = 0 then s2
                  else (case telegramBot_pinChatMessage E (groupId C) messageId True s2 of
                          (None, s3) \<Rightarrow>
                            s3\<lparr>pinnedMessages := (pinnedMessages s3)(topicId \<mapsto> messageId)\<rparr>
                        | (Some pinError, s3) \<Rightarrow>
                            (case telegramBot_pinChatMessage E (groupId C) messageId False s3 of
                               (None, s4) \<Rightarrow>
                                 s4\<lparr>pinnedMessages := (pinnedMessages s4)(topicId \<mapsto> messageId)\<rparr>
                             | (Some altPinError, s4) \<Rightarrow> s4)))))"

definition groupInfoText :: "jsstring \<Rightarrow> jsstring \<Rightarrow> jsstring" where
  "groupInfoText groupName groupIdentifier =
     [0xD83C, 0xDFF7, 0xFE0F] @ js '' *Group Information*'' @ [10, 10]
     @ [0xD83D, 0xDCDD] @ js '' *Name:* ''
     @ replace_first groupName ([0xD83C, 0xDFF7, 0xFE0F] @ js '' '') [] @ [10]
     @ [0xD83C, 0xDD94] @ js '' *Group ID:* ''
     @ replace_first groupIdentifier (js ''group_'') [] @ [10]
     @ [10, 0xD83D, 0xDD04] @ js '' *Reply to this topic to send messages to the WhatsApp group*''
     @ [10, 0xD83D, 0xDC65] @ js '' *All group members will see your message*''
     @ [10, 0xD83D, 0xDCAC] @ js '' *Reply to a message to quote it on WhatsApp*''"

definition createAndPinGroupInfo ::
  "config \<Rightarrow> env \<Rightarrow> int \<Rightarrow> jsstring \<Rightarrow> jsstring \<Rightarrow> state \<Rightarrow> state" where
  "createAndPinGroupInfo C E topicId groupName groupIdentifier s =
     (if truthy_num (pinnedMessages s topicId) then s
      else case telegramBot_sendMessage E (groupId C)
                  (groupInfoText groupName groupIdentifier) (infoOptions topicId) s of
           (Inl error, s2) \<Rightarrow> s2
         | (Inr infoMessage, s2) \<Rightarrow>
             (case infoMessage of
                None \<Rightarrow> s2
              | Some messageId \<Rightarrow>
                  if messageId = 0 then s2
                  else (case telegramBot_pinChatMessage E (groupId C) messageId True s2 of
                          (None, s3) \<Rightarrow>
                            s3\<lparr>pinnedMessages := (pinnedMessages s3)(topicId \<mapsto> messageId)\<rparr>
                        | (Some pinError, s3) \<Rightarrow> s3)))"

section \<open>The topic registry: \<open>getOrCreateTopic\<close> (lines 981 to 1059)\<close>

definition icon_color :: "jsstring \<Rightarrow> int" where
  "icon_color identifier = (if startsWith identifier (js ''group_'') then 0x00ff00 else 0x6fb9f0)"

text \<open>Lines 1008 and 1009, and again 1045 and 1046: both maps are written.\<close>

definition setMapping :: "jsstring \<Rightarrow> int \<Rightarrow> state \<Rightarrow> state" where
  "setMapping identifier threadId s =
     s\<lparr>topicMapping := (topicMapping s)(identifier \<mapsto> threadId),
       reverseTopicMapping := (reverseTopicMapping s)(threadId \<mapsto> identifier)\<rparr>"

definition duplicateName :: "error \<Rightarrow> bool" where
  "duplicateName error =
     (js_includes (message error) (js ''duplicate'')
      \<or> js_includes (message error) (js ''already exists''))"

text \<open>The name of the topic to create (lines 993 to 999), and the name used by the retry
  (lines 1030 to 1036), which carries the timestamp.\<close>

definition firstTopicName :: "jsstring \<Rightarrow> jsstring \<Rightarrow> state \<Rightarrow> jsstring \<times> state" where
  "firstTopicName identifier displayName s =
     (if startsWith identifier (js ''group_'') then (displayName, s)
      else (case getContactName identifier displayName s of
              (cleanContactName, s') \<Rightarrow>
                (cleanContactName @ js '' (+'' @ identifier @ js '')'', s')))"

definition retryTopicName ::
  "jsstring \<Rightarrow> jsstring \<Rightarrow> jsstring \<Rightarrow> state \<Rightarrow> jsstring \<times> state" where
  "retryTopicName identifier displayName timestamp s =
     (if startsWith identifier (js ''group_'')
      then (displayName @ js '' ('' @ timestamp @ js '')'', s)
      else (case getContactName identifier displayName s of
              (cleanContactName, s') \<Rightarrow>
                (cleanContactName @ js '' (+'' @ identifier @ js '') '' @ timestamp, s')))"

text \<open>The \<open>catch\<close> block of lines 1023 to 1056. It receives whatever was raised inside
  the \<open>try\<close> block: by the creation request, or by the database write after it.\<close>

definition getOrCreateTopic_catch ::
  "config \<Rightarrow> env \<Rightarrow> jsstring \<Rightarrow> jsstring \<Rightarrow> error \<Rightarrow> state \<Rightarrow> int option \<times> state" where
  "getOrCreateTopic_catch C E identifier displayName error s =
     (if duplicateName error then
        (case Date_now E s of (now, s1) \<Rightarrow>
           let timestamp = slice_last 4 (toString_nat now) in
           (case retryTopicName identifier displayName timestamp s1 of (topicName, s2) \<Rightarrow>
              (case telegramBot_createForumTopic E (groupId C) topicName (icon_color identifier) s2 of
                 (Inl retryError, s3) \<Rightarrow> (None, s3)
               | (Inr result, s3) \<Rightarrow>
                   (case result of
                      None \<Rightarrow> (None, s3)
                    | Some threadId \<Rightarrow>
                        if threadId = 0 then (None, s3)
                        else (case saveTelegramTopic E identifier threadId displayName
                                     (setMapping identifier threadId s3) of
                                (Some retryError, s4) \<Rightarrow> (None, s4)
                              | (None, s4) \<Rightarrow> (Some threadId, s4))))))
      else (None, s))"

definition getOrCreateTopic ::
  "config \<Rightarrow> env \<Rightarrow> jsstring \<Rightarrow> jsstring \<Rightarrow> state \<Rightarrow> int option \<times> state" where
  "getOrCreateTopic C E identifier displayName s =
     (if \<not> createTopics C \<or> \<not> telegramBot s then (None, s)
      else if truthy_num (topicMapping s identifier) then (topicMapping s identifier, s)
      else
        (case firstTopicName identifier displayName s of (topicName, s1) \<Rightarrow>
           (case telegramBot_createForumTopic E (groupId C) topicName (icon_color identifier) s1 of
              (Inl error, s2) \<Rightarrow> getOrCreateTopic_catch C E identifier displayName error s2
            | (Inr result, s2) \<Rightarrow>
                (case result of
                   None \<Rightarrow> (None, s2)
                 | Some threadId \<Rightarrow>
                     if threadId = 0 then (None, s2)
                     else (case saveTelegramTopic E identifier threadId displayName
                                  (setMapping identifier threadId s2) of
                             (Some error, s3) \<Rightarrow>
                               getOrCreateTopic_catch C E identifier displayName error s3
                           | (None, s3) \<Rightarrow>
                               (Some threadId,
                                if startsWith identifier (js ''group_'')
                                then createAndPinGroupInfo C E threadId displayName identifier s3
                                else createAndPinUserInfo C E threadId displayName identifier s3))))))"

section \<open>The retrying sender: \<open>sendToTelegramWithRetry\<close> (lines 418 to 457)\<close>

definition threadMissing :: "error \<Rightarrow> bool" where
  "threadMissing error =
     (js_includes (message error) (js ''thread'')
      \<or> js_includes (message error) (js ''topic'')
      \<or> js_includes (message error) (js ''not found''))"

text \<open>Lines 435 and 436: the forward entry of the identifier and the reverse entry of the
  thread id found in the options are deleted.\<close>

definition removeOldMapping :: "jsstring \<Rightarrow> int \<Rightarrow> state \<Rightarrow> state" where
  "removeOldMapping identifier threadId s =
     s\<lparr>topicMapping := (topicMapping s)(identifier := None),
       reverseTopicMapping := (reverseTopicMapping s)(threadId := None)\<rparr>"

definition sendToTelegramWithRetry ::
  "config \<Rightarrow> env \<Rightarrow> int \<Rightarrow> jsstring \<Rightarrow> options \<Rightarrow> jsstring option \<Rightarrow> jsstring option \<Rightarrow>
   state \<Rightarrow> (error + int option) \<times> state" where
  "sendToTelegramWithRetry C E chatId msg opts identifier displayName s =
     (case telegramBot_sendMessage E chatId msg opts s of
        (Inr sent, s1) \<Rightarrow> (Inr sent, s1)
      | (Inl error, s1) \<Rightarrow>
          if truthy_str identifier \<and> truthy_str displayName
             \<and> truthy_num (message_thread_id opts) \<and> threadMissing error
          then
            (case (identifier, displayName, message_thread_id opts) of
               (Some ident, Some name, Some oldTopicId) \<Rightarrow>
                 (case getOrCreateTopic C E ident name (removeOldMapping ident oldTopicId s1) of
                    (newTopicId, s2) \<Rightarrow>
                      if truthy_num newTopicId
                      then telegramBot_sendMessage E chatId msg
                             (opts\<lparr>message_thread_id := newTopicId\<rparr>) s2
                      else (Inl error, s2))
             | _ \<Rightarrow> (Inl error, s1))
          else (Inl error, s1))"

section \<open>Fragments of \<open>forwardToTelegram\<close>\<close>

text \<open>
  Lines 1269 to 1274, the number of an individual chat: \<open>m.sender.user\<close> when truthy,
  otherwise the part of \<open>m.sender\<close> before the first \<open>@\<close>; every code unit outside
  \<open>[0-9+]\<close> is removed (the pattern \<open>/[^\d+]/g\<close>); one leading \<open>+\<close> is removed.
\<close>

definition isDigit :: "16 word \<Rightarrow> bool" where
  "isDigit c = (48 \<le> c \<and> c \<le> 57)"

text \<open>\<open>m.sender.user || m.sender.split("@")[0]\<close>\<close>

definition senderLocalPart :: "jsstring option \<Rightarrow> jsstring \<Rightarrow> jsstring" where
  "senderLocalPart senderUser sender =
     (if truthy_str senderUser
      then (case senderUser of Some u \<Rightarrow> u | None \<Rightarrow> [])
      else (case split_on 64 sender of p # ps \<Rightarrow> p | [] \<Rightarrow> []))"

definition whatsappNumber :: "jsstring option \<Rightarrow> jsstring \<Rightarrow> jsstring" where
  "whatsappNumber senderUser sender =
     (let stripped = filter (\<lambda>c. isDigit c \<or> c = 43) (senderLocalPart senderUser sender)
      in if startsWith stripped [43] then drop 1 stripped else stripped)"

text \<open>
  Lines 1536 to 1571, the sticker branch of the media forward. \<open>mId\<close> is \<open>m.id\<close>,
  \<open>cap\<close> is \<open>mediaOptions.caption\<close>, \<open>topicId\<close> the thread the message goes to. The
  result is the error that leaves the branch, if any.
\<close>

definition mediaOptions :: "int \<Rightarrow> jsstring option \<Rightarrow> options" where
  "mediaOptions topicId cap =
     \<lparr>message_thread_id = Some topicId, parse_mode = None,
      disable_web_page_preview = False, reply_to_message_id = None, caption = cap\<rparr>"

definition captionOr :: "jsstring option \<Rightarrow> jsstring \<Rightarrow> jsstring option" where
  "captionOr cap dflt = (if truthy_str cap then cap else Some dflt)"

text \<open>\<open>if (sentMessage && sentMessage.message_id && m.id) chatMessageMapping[...] = m.id\<close>\<close>

definition mapForReplies :: "int option \<Rightarrow> jsstring option \<Rightarrow> state \<Rightarrow> state" where
  "mapForReplies sentMessage mId s =
     (case (sentMessage, mId) of
        (Some messageId, Some i) \<Rightarrow>
          if messageId \<noteq> 0 \<and> i \<noteq> []
          then s\<lparr>chatMessageMapping := (chatMessageMapping s)(messageId \<mapsto> i)\<rparr> else s
      | _ \<Rightarrow> s)"

definition forwardSticker ::
  "config \<Rightarrow> env \<Rightarrow> bool \<Rightarrow> jsstring option \<Rightarrow> bytes \<Rightarrow> jsstring option \<Rightarrow> int \<Rightarrow> state \<Rightarrow>
   error option \<times> state" where
  "forwardSticker C E isAnimated mId mediaBuffer cap topicId s =
     (case (if isAnimated \<and> ffmpegAvailable C then
              (case convertAnimatedWebPToMP4 C E mediaBuffer s of
                 (Inl e, s1) \<Rightarrow> (Some e, s1)
               | (Inr mp4Buffer, s1) \<Rightarrow>
                   (case telegramBot_sendMedia E Animation (groupId C) mp4Buffer
                           (mediaOptions topicId
                              (captionOr cap ([0xD83C, 0xDFAD] @ js '' Animated Sticker''))) s1 of
                      (Inl e, s2) \<Rightarrow> (Some e, s2)
                    | (Inr sentMessage, s2) \<Rightarrow> (None, mapForReplies sentMessage mId s2)))
            else
              (case telegramBot_sendMedia E Sticker (groupId C) mediaBuffer
                      (mediaOptions topicId None) s of
                 (Inl e, s1) \<Rightarrow> (Some e, s1)
               | (Inr sentMessage, s1) \<Rightarrow> (None, mapForReplies sentMessage mId s1)))
      of (None, s') \<Rightarrow> (None, s')
       | (Some stickerError, s') \<Rightarrow>
           (case telegramBot_sendMedia E Photo (groupId C) mediaBuffer
                   (mediaOptions topicId
                      (captionOr cap ([0xD83C, 0xDFAD] @ js '' Sticker (as image)''))) s' of
              (Inl e, s'') \<Rightarrow> (Some e, s'')
            | (Inr sentMessage, s'') \<Rightarrow> (None, mapForReplies sentMessage mId s'')))"

section \<open>Messages from the destination surface: \<open>handleTelegramMessage\<close> (lines 676 to 979)\<close>

text \<open>The fields of an incoming message that the handler reads; \<open>msg_reply_to\<close> is
  \<open>msg.reply_to_message.message_id\<close>, \<open>None\<close> when the message is not a reply.\<close>

record tg_msg =
  msg_chat_id :: int
  msg_from_is_bot :: bool
  msg_thread_id :: "int option"
  msg_id :: int
  msg_reply_to :: "int option"
  msg_text :: "jsstring option"
  msg_caption :: "jsstring option"

text \<open>\<open>setReaction\<close> (lines 171 to 184) answers \<open>true\<close> or \<open>false\<close> and never raises.\<close>

definition setReaction :: "env \<Rightarrow> int \<Rightarrow> int \<Rightarrow> jsstring \<Rightarrow> state \<Rightarrow> bool \<times> state" where
  "setReaction E chatId messageId emoji s =
     (axios_setMessageReaction E (history s) chatId messageId emoji,
      emit (SetMessageReaction chatId messageId emoji) s)"

definition global_bot_sendMessage ::
  "env \<Rightarrow> jsstring \<Rightarrow> jsstring \<Rightarrow> jsstring \<Rightarrow> state \<Rightarrow> error option \<times> state" where
  "global_bot_sendMessage E jid reaction keyId s =
     (wa_sendMessage E (history s) jid reaction keyId, emit (SendReaction jid reaction keyId) s)"

definition usageHint :: jsstring where
  "usageHint = [0xD83D, 0xDCA1] @ js '' Reply to a status message to react to it on WhatsApp''"

definition replyOptions :: "int \<Rightarrow> int \<Rightarrow> options" where
  "replyOptions topicId messageId =
     \<lparr>message_thread_id = Some topicId, parse_mode = None,
      disable_web_page_preview = False, reply_to_message_id = Some messageId, caption = None\<rparr>"

text \<open>Lines 698 to 736, inside the status topic. The result is the error that leaves
  the block, if any; the handler's outer \<open>catch\<close> logs it.\<close>

definition statusTopicMessage :: "env \<Rightarrow> tg_msg \<Rightarrow> int \<Rightarrow> state \<Rightarrow> error option \<times> state" where
  "statusTopicMessage E msg topicId s =
     (case (case msg_reply_to msg of
              None \<Rightarrow> None
            | Some r \<Rightarrow> if truthy_str (statusMessageMapping s r)
                        then statusMessageMapping s r else None) of
        Some statusInfo \<Rightarrow>
          (case split_on 95 statusInfo of
             [] \<Rightarrow> (None, s)
           | statusSender # rest \<Rightarrow>
               let statusTimestamp = (case rest of [] \<Rightarrow> js ''undefined'' | ts # _ \<Rightarrow> ts);
                   replyText = (if truthy_str (msg_text msg) then msg_text msg
                                else if truthy_str (msg_caption msg) then msg_caption msg
                                else Some [0xD83D, 0xDC4D])
               in if waBot s then
                    (case global_bot_sendMessage E (statusSender @ js ''@s.whatsapp.net'')
                            (case replyText of Some r \<Rightarrow> take 1 r | None \<Rightarrow> [])
                            (js ''status_'' @ statusTimestamp) s of
                       (None, s1) \<Rightarrow>
                         (None, snd (setReaction E (msg_chat_id msg) (msg_id msg) [0x2705] s1))
                     | (Some error, s1) \<Rightarrow>
                         (None, snd (setReaction E (msg_chat_id msg) (msg_id msg) [0x274C] s1)))
                  else (None, s))
      | None \<Rightarrow>
          (case telegramBot_sendMessage E (msg_chat_id msg) usageHint
                  (replyOptions topicId (msg_id msg)) s of
             (Inl e, s1) \<Rightarrow> (Some e, s1)
           | (Inr sent, s1) \<Rightarrow> (None, s1)))"

text \<open>The handler up to line 750. What follows once the topic's identifier is known
  (lines 752 to 975: the payload for the source network is built and sent) is the
  parameter \<open>toWhatsApp\<close>.\<close>

definition handleTelegramMessage ::
  "config \<Rightarrow> env \<Rightarrow> (jsstring \<Rightarrow> tg_msg \<Rightarrow> state \<Rightarrow> state) \<Rightarrow> tg_msg \<Rightarrow> state \<Rightarrow> state" where
  "handleTelegramMessage C E toWhatsApp msg s =
     (if toString_int (msg_chat_id msg) \<noteq> toString_int (groupId C) then s
      else if msg_from_is_bot msg then s
      else if \<not> truthy_num (msg_thread_id msg) then s
      else case msg_thread_id msg of
             None \<Rightarrow> s
           | Some topicId \<Rightarrow>
               if statusTopicId s = Some topicId then snd (statusTopicMessage E msg topicId s)
               else if callTopicId s = Some topicId then s
               else if \<not> truthy_str (reverseTopicMapping s topicId) then s
               else (case reverseTopicMapping s topicId of
                       None \<Rightarrow> s
                     | Some identifier \<Rightarrow> toWhatsApp identifier msg s))"

text \<open>The listener that \<open>initTelegramBot\<close> registers for every incoming message (lines 480
  to 499). A message whose text starts with \<open>/\<close> goes to \<open>handleTelegramCommand\<close> (lines
  523 to 634, here the parameter of that name) and the listener returns; every other
  message goes to \<open>handleTelegramMessage\<close>. Neither handler is called from anywhere
  else. The log line before the test reads \<open>msg.from\<close> and \<open>msg.chat\<close>, which the record
  \<open>tg_msg\<close> takes to be there.\<close>

definition isCommand :: "tg_msg \<Rightarrow> bool" where
  "isCommand msg =
     (truthy_str (msg_text msg)
      \<and> startsWith (case msg_text msg of Some t \<Rightarrow> t | None \<Rightarrow> []) (js ''/''))"

definition onMessage ::
  "config \<Rightarrow> env \<Rightarrow> (tg_msg \<Rightarrow> state \<Rightarrow> state) \<Rightarrow> (jsstring \<Rightarrow> tg_msg \<Rightarrow> state \<Rightarrow> state) \<Rightarrow>
   tg_msg \<Rightarrow> state \<Rightarrow> state" where
  "onMessage C E handleTelegramCommand toWhatsApp msg s =
     (if isCommand msg then handleTelegramCommand msg s
      else handleTelegramMessage C E toWhatsApp msg s)"

section \<open>Properties of the registry\<close>

text \<open>The two maps are strict inverses: an identifier is mapped to a thread exactly
  when the thread is mapped back to it.\<close>

definition strict_inverses :: "state \<Rightarrow> bool" where
  "strict_inverses s =
     (\<forall>i t. topicMapping s i = Some t \<longleftrightarrow> reverseTopicMapping s t = Some i)"

text \<open>The thread ids that the world can answer a creation request with once the calls
  \<open>h0\<close> have been made, whatever calls follow.\<close>

definition issues_after :: "env \<Rightarrow> event list \<Rightarrow> int \<Rightarrow> bool" where
  "issues_after E h0 t = (\<exists>h g n c. tg_createForumTopic E (h0 @ h) g n c = Inr (Some t))"

text \<open>No thread id that the world can issue from now on is a key of the reverse map.\<close>

definition fresh_ids :: "env \<Rightarrow> state \<Rightarrow> bool" where
  "fresh_ids E s =
     (\<forall>t. issues_after E (history s) t \<longrightarrow> reverseTopicMapping s t = None)"

text \<open>The database write can fail with an error of the duplicate-name class.\<close>

definition save_raises_duplicate :: "env \<Rightarrow> bool" where
  "save_raises_duplicate E =
     (\<exists>h i t n e. db_saveTelegramTopic E h i t n = Some e \<and> duplicateName e)"

text \<open>The number of thread-creation requests in a record of calls.\<close>

fun creations :: "event list \<Rightarrow> nat" where
  "creations [] = 0"
| "creations (e # es) = (case e of CreateForumTopic g n c \<Rightarrow> Suc (creations es) | _ \<Rightarrow> creations es)"

section \<open>The identifier of an individual chat, described directly\<close>

text \<open>Of the sender's local part (the user field when it is there and not empty, otherwise
  the text before the first \<open>@\<close>) keep the digits and the \<open>+\<close> signs, then drop one leading
  \<open>+\<close>.\<close>

fun beforeAt :: "jsstring \<Rightarrow> jsstring" where
  "beforeAt [] = []"
| "beforeAt (c # cs) = (if c = 64 then [] else c # beforeAt cs)"

fun keepDigitsPlus :: "jsstring \<Rightarrow> jsstring" where
  "keepDigitsPlus [] = []"
| "keepDigitsPlus (c # cs) =
     (if (48 \<le> c \<and> c \<le> 57) \<or> c = 43 then c # keepDigitsPlus cs else keepDigitsPlus cs)"

fun dropLeadingPlus :: "jsstring \<Rightarrow> jsstring" where
  "dropLeadingPlus [] = []"
| "dropLeadingPlus (c # cs) = (if c = 43 then cs else c # cs)"

definition normalisedNumber :: "jsstring option \<Rightarrow> jsstring \<Rightarrow> jsstring" where
  "normalisedNumber user sender =
     dropLeadingPlus (keepDigitsPlus
       (case user of
          None \<Rightarrow> beforeAt sender
        | Some u \<Rightarrow> if u = [] then beforeAt sender else u))"

section \<open>Example worlds\<close>

text \<open>A world in which every call succeeds (ids are drawn from the number of calls made
  so far, so they are fresh), a configuration with everything switched on, and the state
  right after start-up.\<close>

definition world_ok :: env where
  "world_ok =
     \<lparr>tg_sendMessage = (\<lambda>h chat txt opts. Inr (Some (100 + int (length h)))),
      tg_sendMedia = (\<lambda>h k chat b opts. Inr (Some (100 + int (length h)))),
      tg_createForumTopic = (\<lambda>h g name color. Inr (Some (1000 + int (length h)))),
      tg_pinChatMessage = (\<lambda>h chat mid quiet. None),
      db_saveTelegramTopic = (\<lambda>h ident tid name. None),
      wa_fetchStatus = (\<lambda>h jid. None),
      wa_sendMessage = (\<lambda>h jid txt key. None),
      axios_setMessageReaction = (\<lambda>h chat mid emoji. True),
      date_now = (\<lambda>h. 1730000001234),
      fs_write_error = (\<lambda>h p. None),
      ffmpeg_run = (\<lambda>h job i o' fs. (None, fs(o' \<mapsto> [7, 7, 7])))\<rparr>"

definition config_on :: config where
  "config_on =
     \<lparr>createTopics = True, groupId = - 1001, ffmpegAvailable = True,
      tempDir = js ''/app/temp''\<rparr>"

definition boot :: state where
  "boot =
     \<lparr>telegramBot = True, waBot = True, topicMapping = Map.empty,
      reverseTopicMapping = Map.empty, statusTopicId = None, callTopicId = None,
      contactsCache = Map.empty, pinnedMessages = Map.empty,
      statusMessageMapping = Map.empty, chatMessageMapping = Map.empty,
      files = Map.empty, dirs = {}, history = []\<rparr>"

text \<open>A world like \<open>world_ok\<close> in which every topic name is taken, and one in which
  only the first creation request of a run meets a taken name.\<close>

definition world_names_taken :: env where
  "world_names_taken =
     world_ok\<lparr>tg_createForumTopic :=
       (\<lambda>h g name color. Inl (Error (js ''Bad Request: a topic with this name already exists'')))\<rparr>"

definition world_first_name_taken :: env where
  "world_first_name_taken =
     world_ok\<lparr>tg_createForumTopic :=
       (\<lambda>h g name color.
          if creations h = 0
          then Inl (Error (js ''Bad Request: a topic with this name already exists''))
          else Inr (Some (1000 + int (length h))))\<rparr>"

text \<open>A world like \<open>world_ok\<close> in which every media send is refused.\<close>

definition world_media_refused :: env where
  "world_media_refused =
     world_ok\<lparr>tg_sendMedia :=
       (\<lambda>h k chat b opts. Inl (Error (js ''Bad Request: wrong file identifier'')))\<rparr>"

text \<open>A state in which the status topic is thread 9 and message 77 of it is the forwarded
  status of \<open>15551234567\<close>.\<close>

definition with_status :: state where
  "with_status =
     boot\<lparr>statusTopicId := Some 9,
          statusMessageMapping := [77 \<mapsto> js ''15551234567_1730000000000'']\<rparr>"

text \<open>A message typed by a person into thread 9 of the group, replying to nothing.\<close>

definition plain_message :: tg_msg where
  "plain_message =
     \<lparr>msg_chat_id = - 1001, msg_from_is_bot = False, msg_thread_id = Some 9, msg_id = 80,
      msg_reply_to = None, msg_text = Some (js ''nice''), msg_caption = None\<rparr>"

text \<open>A state in which the contact \<open>15551234567\<close> is bridged to thread 5.\<close>

definition registered :: state where
  "registered =
     boot\<lparr>topicMapping := [js ''15551234567'' \<mapsto> 5],
          reverseTopicMapping := [5 \<mapsto> js ''15551234567'']\<rparr>"

text \<open>A world like \<open>world_ok\<close> in which no thread can be created.\<close>

definition world_create_fails :: env where
  "world_create_fails =
     world_ok\<lparr>tg_createForumTopic :=
       (\<lambda>h g name color. Inl (Error (js ''Too Many Requests: retry after 5'')))\<rparr>"

text \<open>A world like \<open>world_ok\<close> in which the given thread is gone: a message sent to it
  is refused.\<close>

definition world_thread_gone :: "int \<Rightarrow> env" where
  "world_thread_gone gone =
     world_ok\<lparr>tg_sendMessage :=
       (\<lambda>h chat txt opts.
          if message_thread_id opts = Some gone
          then Inl (Error (js ''Bad Request: message thread not found''))
          else Inr (Some (100 + int (length h))))\<rparr>"

definition textOptions :: "int \<Rightarrow> options" where
  "textOptions topicId =
     \<lparr>message_thread_id = Some topicId, parse_mode = Some (js ''Markdown''),
      disable_web_page_preview = True, reply_to_message_id = None, caption = None\<rparr>"

definition config_off :: config where
  "config_off = config_on\<lparr>ffmpegAvailable := False\<rparr>"

text \<open>A world like \<open>world_ok\<close> whose ffmpeg fails, leaving a partial output file.\<close>

definition world_ffmpeg_fails :: env where
  "world_ffmpeg_fails =
     world_ok\<lparr>ffmpeg_run :=
       (\<lambda>h job i o' fs. (Some (Error (js ''Command failed: ffmpeg'')), fs(o' \<mapsto> [7])))\<rparr>"

text \<open>A world like \<open>world_first_name_taken\<close> whose database is down: every write
  fails.\<close>

definition world_database_down :: env where
  "world_database_down =
     world_first_name_taken\<lparr>db_saveTelegramTopic :=
       (\<lambda>h ident tid name. Some (Error (js ''connect ECONNREFUSED 127.0.0.1:27017'')))\<rparr>"

text \<open>Two sends of one run of \<open>forwardToTelegram\<close> for the contact bridged to thread 5,
  in the world where thread 5 is gone. The run reads the thread id once (lines 1227 and
  1287) and passes that value in the options of each of its sends (lines 1249 and 1395,
  among others), so the second send carries thread 5 like the first.\<close>

definition first_send :: state where
  "first_send =
     snd (sendToTelegramWithRetry config_on (world_thread_gone 5) (- 1001) (js ''hi'')
            (textOptions 5) (Some (js ''15551234567'')) (Some (js ''Alice'')) registered)"

definition second_send :: state where
  "second_send =
     snd (sendToTelegramWithRetry config_on (world_thread_gone 5) (- 1001) (js ''card'')
            (textOptions 5) (Some (js ''15551234567'')) (Some (js ''Alice'')) first_send)"

text \<open>The message \<open>/ping\<close> typed by a person into thread 9 of the group.\<close>

definition ping_message :: tg_msg where
  "ping_message = plain_message\<lparr>msg_text := Some (js ''/ping'')\<rparr>"

text \<open>The clock of the example worlds, as \<open>toString()\<close> renders it.\<close>

lemma clock_string: "toString_nat 1730000001234 = js ''1730000001234''"
  by (simp add: toString_nat.simps js_def)

lemmas world_simps =
  config_on_def config_off_def world_ok_def world_ffmpeg_fails_def boot_def
  registered_def world_create_fails_def world_thread_gone_def textOptions_def
  world_media_refused_def with_status_def plain_message_def
  world_names_taken_def world_first_name_taken_def
  Date_now_def emit_def clock_string js_def


section \<open>The transcoders leave no scratch file and the round-note conversion never raises\<close>

lemma cleanup_ok:
  "transcode_cleanup i o' s = (r, s') \<Longrightarrow> r = None \<and> files s' i = None \<and> files s' o' = None"
  by (auto simp: transcode_cleanup_def fs_existsSync_def fs_unlinkSync_def
           split: if_splits option.splits prod.splits)

lemma try_ok:
  "transcode_try E job i o' buf s = (Inr out, s') \<Longrightarrow> files s' i = None \<and> files s' o' = None"
  by (auto simp: transcode_try_def fs_unlinkSync_def
           split: if_splits option.splits prod.splits sum.splits)

lemma convert_removed:
  "(case transcode_try E job i o' buf s of
      (Inr b, s2) \<Rightarrow> (Inr b, s2)
    | (Inl error, s2) \<Rightarrow>
        (case transcode_cleanup i o' s2 of
           (Some e, s3) \<Rightarrow> (Inl e, s3)
         | (None, s3) \<Rightarrow> (f error, s3))) = (r, s')
   \<Longrightarrow> files s' i = None \<and> files s' o' = None"
  by (auto split: prod.splits sum.splits option.splits dest: try_ok cleanup_ok)

lemma mp4_removed:
  assumes "ffmpegAvailable C"
    and "scratchFiles C E (js ''webp'') (js ''mp4'') s = ((i, o'), s1)"
    and "convertAnimatedWebPToMP4 C E b s = (r, s')"
  shows "files s' i = None \<and> files s' o' = None"
  using assms unfolding convertAnimatedWebPToMP4_def
  by simp (erule convert_removed [where f = Inl])

lemma webp_removed:
  assumes "ffmpegAvailable C \<or> \<not> isAnimated"
    and "scratchFiles C E (if isAnimated then js ''webm'' else js ''webp'') (js ''webp'') s
         = ((i, o'), s1)"
    and "convertTelegramStickerToWebP C E b isAnimated s = (r, s')"
  shows "files s' i = None \<and> files s' o' = None"
proof -
  from assms(1) have g: "\<not> (\<not> ffmpegAvailable C \<and> isAnimated)" by blast
  show ?thesis
    using assms(2,3) unfolding convertTelegramStickerToWebP_def if_not_P [OF g]
    by simp (erule convert_removed [where f = Inl])
qed

lemma note_removed:
  assumes "ffmpegAvailable C"
    and "scratchFiles C E (js ''mp4'') (js ''mp4'') s = ((i, o'), s1)"
    and "convertToVideoNote C E b s = (r, s')"
  shows "files s' i = None \<and> files s' o' = None"
  using assms unfolding convertToVideoNote_def
  by simp (erule convert_removed [where f = "\<lambda>e. Inr b"])

text \<open>
  Claim C8. Whenever one of the three transcoders gets as far as writing its scratch
  input file (ffmpeg is available, or the sticker is static), neither of its two scratch
  files exists when the call is over, whether it returns or raises, whatever ffmpeg did
  to the files and whether or not the write succeeded.
\<close>

theorem scratch_files_removed:
  "(ffmpegAvailable C \<longrightarrow>
      (case scratchFiles C E (js ''webp'') (js ''mp4'') s of ((inputFile, outputFile), s1) \<Rightarrow>
         (case convertAnimatedWebPToMP4 C E webpBuffer s of (r, s') \<Rightarrow>
            files s' inputFile = None \<and> files s' outputFile = None)))
 \<and> (ffmpegAvailable C \<or> \<not> isAnimated \<longrightarrow>
      (case scratchFiles C E (if isAnimated then js ''webm'' else js ''webp'') (js ''webp'') s of
         ((inputFile, outputFile), s1) \<Rightarrow>
         (case convertTelegramStickerToWebP C E stickerBuffer isAnimated s of (r, s') \<Rightarrow>
            files s' inputFile = None \<and> files s' outputFile = None)))
 \<and> (ffmpegAvailable C \<longrightarrow>
      (case scratchFiles C E (js ''mp4'') (js ''mp4'') s of ((inputFile, outputFile), s1) \<Rightarrow>
         (case convertToVideoNote C E videoBuffer s of (r, s') \<Rightarrow>
            files s' inputFile = None \<and> files s' outputFile = None)))"
proof (intro conjI impI)
  assume a: "ffmpegAvailable C"
  show "case scratchFiles C E (js ''webp'') (js ''mp4'') s of ((inputFile, outputFile), s1) \<Rightarrow>
         (case convertAnimatedWebPToMP4 C E webpBuffer s of (r, s') \<Rightarrow>
            files s' inputFile = None \<and> files s' outputFile = None)"
    using mp4_removed [OF a] by (fastforce split: prod.splits)
  show "case scratchFiles C E (js ''mp4'') (js ''mp4'') s of ((inputFile, outputFile), s1) \<Rightarrow>
         (case convertToVideoNote C E videoBuffer s of (r, s') \<Rightarrow>
            files s' inputFile = None \<and> files s' outputFile = None)"
    using note_removed [OF a] by (fastforce split: prod.splits)
next
  assume a: "ffmpegAvailable C \<or> \<not> isAnimated"
  show "case scratchFiles C E (if isAnimated then js ''webm'' else js ''webp'') (js ''webp'') s of
         ((inputFile, outputFile), s1) \<Rightarrow>
         (case convertTelegramStickerToWebP C E stickerBuffer isAnimated s of (r, s') \<Rightarrow>
            files s' inputFile = None \<and> files s' outputFile = None)"
    using webp_removed [OF a] by (fastforce split: prod.splits)
qed

text \<open>In the world whose ffmpeg fails and leaves a partial output, with a stale output
  file of the same name already on disk, all three calls end with both files gone; the
  first two raise ffmpeg's error.\<close>

theorem scratch_files_removed_witness:
  "ffmpegAvailable config_on \<and> (ffmpegAvailable config_on \<or> \<not> True)
 \<and> files (snd (convertAnimatedWebPToMP4 config_on world_ffmpeg_fails [1, 2]
                  (boot\<lparr>files := [js ''/app/temp/output_1730000001234.mp4'' \<mapsto> [9]]\<rparr>)))
          (js ''/app/temp/input_1730000001234.webp'') = None
 \<and> files (snd (convertAnimatedWebPToMP4 config_on world_ffmpeg_fails [1, 2]
                  (boot\<lparr>files := [js ''/app/temp/output_1730000001234.mp4'' \<mapsto> [9]]\<rparr>)))
          (js ''/app/temp/output_1730000001234.mp4'') = None
 \<and> files (snd (convertTelegramStickerToWebP config_on world_ffmpeg_fails [1, 2] True
                  (boot\<lparr>files := [js ''/app/temp/output_1730000001234.mp4'' \<mapsto> [9]]\<rparr>)))
          (js ''/app/temp/input_1730000001234.webm'') = None
 \<and> files (snd (convertTelegramStickerToWebP config_on world_ffmpeg_fails [1, 2] True
                  (boot\<lparr>files := [js ''/app/temp/output_1730000001234.mp4'' \<mapsto> [9]]\<rparr>)))
          (js ''/app/temp/output_1730000001234.webp'') = None
 \<and> files (snd (convertToVideoNote config_on world_ffmpeg_fails [1, 2]
                  (boot\<lparr>files := [js ''/app/temp/output_1730000001234.mp4'' \<mapsto> [9]]\<rparr>)))
          (js ''/app/temp/input_1730000001234.mp4'') = None
 \<and> files (snd (convertToVideoNote config_on world_ffmpeg_fails [1, 2]
                  (boot\<lparr>files := [js ''/app/temp/output_1730000001234.mp4'' \<mapsto> [9]]\<rparr>)))
          (js ''/app/temp/output_1730000001234.mp4'') = None"
  using scratch_files_removed [where C = config_on and E = world_ffmpeg_fails
          and s = "boot\<lparr>files := [js ''/app/temp/output_1730000001234.mp4'' \<mapsto> [9]]\<rparr>"
          and webpBuffer = "[1, 2]" and isAnimated = True and stickerBuffer = "[1, 2]"
          and videoBuffer = "[1, 2]"]
  by (simp add: scratchFiles_def world_simps split_def)






section \<open>The registry: what one call can do\<close>

lemma creations_append [simp]: "creations (xs @ ys) = creations xs + creations ys"
  by (induction xs) (auto split: event.splits)

lemma emit_fields [simp]:
  "telegramBot (emit e s) = telegramBot s"
  "waBot (emit e s) = waBot s"
  "topicMapping (emit e s) = topicMapping s"
  "reverseTopicMapping (emit e s) = reverseTopicMapping s"
  "statusTopicId (emit e s) = statusTopicId s"
  "callTopicId (emit e s) = callTopicId s"
  "contactsCache (emit e s) = contactsCache s"
  "pinnedMessages (emit e s) = pinnedMessages s"
  "statusMessageMapping (emit e s) = statusMessageMapping s"
  "chatMessageMapping (emit e s) = chatMessageMapping s"
  "files (emit e s) = files s"
  "dirs (emit e s) = dirs s"
  "history (emit e s) = history s @ [e]"
  by (simp_all add: emit_def)

lemma sendMessage_frame:
  assumes "telegramBot_sendMessage E chat txt opts s = (r, s')"
  shows "topicMapping s' = topicMapping s \<and> reverseTopicMapping s' = reverseTopicMapping s
       \<and> telegramBot s' = telegramBot s \<and> contactsCache s' = contactsCache s
       \<and> pinnedMessages s' = pinnedMessages s
       \<and> creations (history s') = creations (history s)
       \<and> (\<exists>es. history s' = history s @ es)"
  using assms by (auto simp: telegramBot_sendMessage_def split: if_splits)

lemma pin_frame:
  assumes "telegramBot_pinChatMessage E chat m q s = (r, s')"
  shows "topicMapping s' = topicMapping s \<and> reverseTopicMapping s' = reverseTopicMapping s
       \<and> telegramBot s' = telegramBot s \<and> contactsCache s' = contactsCache s
       \<and> creations (history s') = creations (history s)"
  using assms by (auto simp: telegramBot_pinChatMessage_def split: if_splits)

lemma getUserInfo_frame:
  assumes "getUserInfo E w s = (r, s')"
  shows "topicMapping s' = topicMapping s \<and> reverseTopicMapping s' = reverseTopicMapping s
       \<and> telegramBot s' = telegramBot s \<and> contactsCache s' = contactsCache s
       \<and> pinnedMessages s' = pinnedMessages s
       \<and> creations (history s') = creations (history s)"
  using assms by (auto simp: getUserInfo_def Let_def split: if_splits)

lemma userInfo_frame:
  "topicMapping (createAndPinUserInfo C E t n w s) = topicMapping s
 \<and> reverseTopicMapping (createAndPinUserInfo C E t n w s) = reverseTopicMapping s
 \<and> telegramBot (createAndPinUserInfo C E t n w s) = telegramBot s
 \<and> contactsCache (createAndPinUserInfo C E t n w s) = contactsCache s
 \<and> creations (history (createAndPinUserInfo C E t n w s)) = creations (history s)"
  unfolding createAndPinUserInfo_def
  by (auto split: prod.splits sum.splits option.splits
      dest!: getUserInfo_frame sendMessage_frame pin_frame)

lemma groupInfo_frame:
  "topicMapping (createAndPinGroupInfo C E t n w s) = topicMapping s
 \<and> reverseTopicMapping (createAndPinGroupInfo C E t n w s) = reverseTopicMapping s
 \<and> telegramBot (createAndPinGroupInfo C E t n w s) = telegramBot s
 \<and> contactsCache (createAndPinGroupInfo C E t n w s) = contactsCache s
 \<and> creations (history (createAndPinGroupInfo C E t n w s)) = creations (history s)"
  unfolding createAndPinGroupInfo_def
  by (auto split: prod.splits sum.splits option.splits
      dest!: sendMessage_frame pin_frame)


lemma getContactName_frame:
  assumes "getContactName w f s = (n, s')"
  shows "topicMapping s' = topicMapping s \<and> reverseTopicMapping s' = reverseTopicMapping s
       \<and> telegramBot s' = telegramBot s \<and> history s' = history s"
  using assms by (auto simp: getContactName_def Let_def split: if_splits option.splits)

lemma firstTopicName_frame:
  assumes "firstTopicName i dn s = (n, s')"
  shows "topicMapping s' = topicMapping s \<and> reverseTopicMapping s' = reverseTopicMapping s
       \<and> telegramBot s' = telegramBot s \<and> history s' = history s"
  using assms
  by (auto simp: firstTopicName_def split: if_splits prod.splits dest!: getContactName_frame)

lemma retryTopicName_frame:
  assumes "retryTopicName i dn ts s = (n, s')"
  shows "topicMapping s' = topicMapping s \<and> reverseTopicMapping s' = reverseTopicMapping s
       \<and> telegramBot s' = telegramBot s \<and> history s' = history s"
  using assms
  by (auto simp: retryTopicName_def split: if_splits prod.splits dest!: getContactName_frame)

lemma create_frame:
  assumes "telegramBot_createForumTopic E g n c s = (r, s')"
  shows "topicMapping s' = topicMapping s \<and> reverseTopicMapping s' = reverseTopicMapping s
       \<and> telegramBot s' = telegramBot s
       \<and> (telegramBot s \<longrightarrow> r = tg_createForumTopic E (history s) g n c
                              \<and> history s' = history s @ [CreateForumTopic g n c])
       \<and> (\<not> telegramBot s \<longrightarrow> history s' = history s \<and> r = Inl (nullBot ''createForumTopic''))"
  using assms by (auto simp: telegramBot_createForumTopic_def split: if_splits)

lemma save_frame:
  assumes "saveTelegramTopic E i t dn s = (r, s')"
  shows "topicMapping s' = topicMapping s \<and> reverseTopicMapping s' = reverseTopicMapping s
       \<and> telegramBot s' = telegramBot s
       \<and> r = db_saveTelegramTopic E (history s) i t dn
       \<and> history s' = history s @ [SaveTelegramTopic i t dn]"
  using assms by (auto simp: saveTelegramTopic_def)

lemma strict_inverses_cong:
  "topicMapping s' = topicMapping s \<Longrightarrow> reverseTopicMapping s' = reverseTopicMapping s
   \<Longrightarrow> strict_inverses s' = strict_inverses s"
  by (simp add: strict_inverses_def)

lemma setMapping_fields [simp]:
  "topicMapping (setMapping i t s) = (topicMapping s)(i \<mapsto> t)"
  "reverseTopicMapping (setMapping i t s) = (reverseTopicMapping s)(t \<mapsto> i)"
  "telegramBot (setMapping i t s) = telegramBot s"
  "history (setMapping i t s) = history s"
  by (simp_all add: setMapping_def)

lemma inv_fwd: "strict_inverses s \<Longrightarrow> topicMapping s i = Some t \<Longrightarrow> reverseTopicMapping s t = Some i"
  by (simp add: strict_inverses_def)

lemma inv_bwd: "strict_inverses s \<Longrightarrow> reverseTopicMapping s t = Some i \<Longrightarrow> topicMapping s i = Some t"
  by (simp add: strict_inverses_def)

lemma setMapping_inverses:
  assumes "strict_inverses s" and "topicMapping s i = None" and "reverseTopicMapping s t = None"
  shows "strict_inverses (setMapping i t s)"
proof -
  have nt: "topicMapping s j \<noteq> Some t" for j
    using inv_fwd [OF assms(1), of j t] assms(3) by auto
  have ni: "reverseTopicMapping s u \<noteq> Some i" for u
    using inv_bwd [OF assms(1), of u i] assms(2) by auto
  show ?thesis
    unfolding strict_inverses_def
  proof (intro allI)
    fix j u
    show "topicMapping (setMapping i t s) j = Some u
          \<longleftrightarrow> reverseTopicMapping (setMapping i t s) u = Some j"
      using inv_fwd [OF assms(1), of j u] inv_bwd [OF assms(1), of u j] nt [of j] ni [of u]
      by (cases "j = i"; cases "u = t") auto
  qed
qed


lemma issues_after_mono: "issues_after E (h0 @ h1) t \<Longrightarrow> issues_after E h0 t"
  unfolding issues_after_def by (metis append.assoc)

lemma issues_after_now: "tg_createForumTopic E h g n c = Inr (Some t) \<Longrightarrow> issues_after E h t"
  unfolding issues_after_def by (metis append_Nil2)

lemma Date_now_frame:
  assumes "Date_now E s = (n, s')"
  shows "n = date_now E (history s) \<and> s' = emit DateNow s"
  using assms by (auto simp: Date_now_def)

text \<open>What the \<open>catch\<close> block can do to the registry.\<close>

lemma catch_cases:
  assumes "getOrCreateTopic_catch C E i dn err s = (r, s')"
  shows "(r = None \<and> topicMapping s' = topicMapping s
            \<and> reverseTopicMapping s' = reverseTopicMapping s
            \<and> telegramBot s' = telegramBot s
            \<and> creations (history s') \<le> creations (history s) + 1
            \<and> creations (history s) \<le> creations (history s')
            \<and> (\<not> duplicateName err \<longrightarrow> s' = s))
       \<or> (duplicateName err \<and>
           (\<exists>t. t \<noteq> 0 \<and> issues_after E (history s) t
              \<and> topicMapping s' = (topicMapping s)(i \<mapsto> t)
              \<and> reverseTopicMapping s' = (reverseTopicMapping s)(t \<mapsto> i)
              \<and> telegramBot s' = telegramBot s
              \<and> creations (history s') = creations (history s) + 1
              \<and> (r = Some t \<or> r = None)))"
proof (cases "duplicateName err")
  case False
  with assms show ?thesis by (simp add: getOrCreateTopic_catch_def)
next
  case True
  obtain now s1 where d: "Date_now E s = (now, s1)" by (metis prod.exhaust)
  obtain nm s2 where n: "retryTopicName i dn (slice_last 4 (toString_nat now)) s1 = (nm, s2)"
    by (metis prod.exhaust)
  obtain cr s3 where c: "telegramBot_createForumTopic E (groupId C) nm (icon_color i) s2 = (cr, s3)"
    by (metis prod.exhaust)
  note f1 = Date_now_frame [OF d]
  note f2 = retryTopicName_frame [OF n]
  note f3 = create_frame [OF c]
  have base: "topicMapping s3 = topicMapping s" "reverseTopicMapping s3 = reverseTopicMapping s"
    "telegramBot s3 = telegramBot s"
    using f1 f2 f3 by auto
  have cnt: "creations (history s3) \<le> creations (history s) + 1"
    using f1 f2 f3 by (cases "telegramBot s") auto
  have cnt2: "creations (history s) \<le> creations (history s3)"
    using f1 f2 f3 by (cases "telegramBot s") auto
  show ?thesis
  proof (cases cr)
    case (Inl e)
    with assms True d n c base cnt cnt2 show ?thesis
      by (simp add: getOrCreateTopic_catch_def Let_def)
  next
    case (Inr res)
    show ?thesis
    proof (cases "truthy_num res")
      case False
      with assms True d n c base cnt cnt2 Inr show ?thesis
        by (auto simp: getOrCreateTopic_catch_def Let_def truthy_num_def split: option.splits)
    next
      case tr: True
      then obtain t where t: "res = Some t" "t \<noteq> 0"
        by (auto simp: truthy_num_def split: option.splits)
      obtain sv s4 where sv: "saveTelegramTopic E i t dn (setMapping i t s3) = (sv, s4)"
        by (metis prod.exhaust)
      note f4 = save_frame [OF sv]
      have tb: "telegramBot s"
        using f1 f2 f3 Inr by (cases "telegramBot s") auto
      have cnt': "creations (history s4) = creations (history s) + 1"
        using f1 f2 f3 f4 tb by auto
      have "tg_createForumTopic E (history s2) (groupId C) nm (icon_color i) = Inr (Some t)"
        using f3 f2 tb Inr t by auto
      then have "issues_after E (history s2) t" by (rule issues_after_now)
      moreover have "history s2 = history s @ [DateNow]" using f1 f2 by simp
      ultimately have orc: "issues_after E (history s) t" by (simp add: issues_after_mono)
      have res: "r = Some t \<or> r = None" and s': "s' = s4"
        using assms True d n c Inr t sv
        by (auto simp: getOrCreateTopic_catch_def Let_def split: option.splits)
      show ?thesis
        by (rule disjI2) (use True t(2) orc f4 base cnt' res s' in \<open>auto intro!: exI [of _ t]\<close>)
    qed
  qed
qed


text \<open>What \<open>getOrCreateTopic\<close> can do to the registry.\<close>

lemma getOrCreate_cases:
  assumes "getOrCreateTopic C E i dn s = (r, s')"
  shows "(r = None \<and> s' = s \<and> (\<not> createTopics C \<or> \<not> telegramBot s))
       \<or> (createTopics C \<and> telegramBot s \<and> truthy_num (topicMapping s i)
            \<and> r = topicMapping s i \<and> s' = s)
       \<or> (createTopics C \<and> telegramBot s \<and> \<not> truthy_num (topicMapping s i)
            \<and> telegramBot s' \<and> creations (history s') \<le> creations (history s) + 2
            \<and> creations (history s) < creations (history s')
            \<and> (  (r = None \<and> topicMapping s' = topicMapping s
                    \<and> reverseTopicMapping s' = reverseTopicMapping s)
                \<or> (\<exists>t. t \<noteq> 0 \<and> issues_after E (history s) t \<and> (r = Some t \<or> r = None)
                      \<and> topicMapping s' = (topicMapping s)(i \<mapsto> t)
                      \<and> reverseTopicMapping s' = (reverseTopicMapping s)(t \<mapsto> i))
                \<or> (save_raises_duplicate E \<and>
                    (\<exists>t u. t \<noteq> 0 \<and> (r = Some t \<or> r = None)
                      \<and> topicMapping s' = (topicMapping s)(i \<mapsto> t)
                      \<and> reverseTopicMapping s' = (reverseTopicMapping s)(u \<mapsto> i, t \<mapsto> i)))))"
proof (cases "\<not> createTopics C \<or> \<not> telegramBot s")
  case True
  with assms show ?thesis by (auto simp: getOrCreateTopic_def)
next
  case gate: False
  show ?thesis
  proof (cases "truthy_num (topicMapping s i)")
    case True
    with assms gate show ?thesis by (auto simp: getOrCreateTopic_def)
  next
    case miss: False
    obtain nm s1 where n: "firstTopicName i dn s = (nm, s1)" by (metis prod.exhaust)
    obtain cr s2 where c: "telegramBot_createForumTopic E (groupId C) nm (icon_color i) s1 = (cr, s2)"
      by (metis prod.exhaust)
    note f1 = firstTopicName_frame [OF n]
    note f2 = create_frame [OF c]
    have tb1: "telegramBot s1" using f1 gate by simp
    have base: "topicMapping s2 = topicMapping s" "reverseTopicMapping s2 = reverseTopicMapping s"
      "telegramBot s2" "creations (history s2) = creations (history s) + 1"
      using f1 f2 tb1 gate by auto
    have h2: "history s2 = history s @ [CreateForumTopic (groupId C) nm (icon_color i)]"
      using f1 f2 tb1 by simp
    have orc: "cr = tg_createForumTopic E (history s1) (groupId C) nm (icon_color i)"
      using f2 tb1 by simp
    have goal3: ?thesis
      if "telegramBot s'" "creations (history s') \<le> creations (history s) + 2"
         "creations (history s) < creations (history s')"
         "(r = None \<and> topicMapping s' = topicMapping s
                    \<and> reverseTopicMapping s' = reverseTopicMapping s)
          \<or> (\<exists>t. t \<noteq> 0 \<and> issues_after E (history s) t \<and> (r = Some t \<or> r = None)
                      \<and> topicMapping s' = (topicMapping s)(i \<mapsto> t)
                      \<and> reverseTopicMapping s' = (reverseTopicMapping s)(t \<mapsto> i))
          \<or> (save_raises_duplicate E \<and>
                    (\<exists>t u. t \<noteq> 0 \<and> (r = Some t \<or> r = None)
                      \<and> topicMapping s' = (topicMapping s)(i \<mapsto> t)
                      \<and> reverseTopicMapping s' = (reverseTopicMapping s)(u \<mapsto> i, t \<mapsto> i)))"
      using that gate miss by blast
    show ?thesis
    proof (cases cr)
      case (Inl err)
      with assms gate miss n c have run: "getOrCreateTopic_catch C E i dn err s2 = (r, s')"
        by (simp add: getOrCreateTopic_def)
      from catch_cases [OF run] base issues_after_mono [of E "history s"] h2 show ?thesis
        by (intro goal3) auto
    next
      case (Inr res)
      show ?thesis
      proof (cases "truthy_num res")
        case False
        with assms gate miss n c Inr have "r = None" "s' = s2"
          by (auto simp: getOrCreateTopic_def truthy_num_def split: option.splits if_splits)
        with base show ?thesis by (intro goal3) auto
      next
        case True
        then obtain t where t: "res = Some t" "t \<noteq> 0"
          by (auto simp: truthy_num_def split: option.splits)
        have "tg_createForumTopic E (history s1) (groupId C) nm (icon_color i) = Inr (Some t)"
          using orc Inr t by simp
        then have "issues_after E (history s1) t" by (rule issues_after_now)
        then have iss: "issues_after E (history s) t" using f1 by simp
        obtain sv s3 where sv: "saveTelegramTopic E i t dn (setMapping i t s2) = (sv, s3)"
          by (metis prod.exhaust)
        note f3 = save_frame [OF sv]
        have base3: "topicMapping s3 = (topicMapping s)(i \<mapsto> t)"
          "reverseTopicMapping s3 = (reverseTopicMapping s)(t \<mapsto> i)"
          "telegramBot s3" "creations (history s3) = creations (history s) + 1"
          using f3 base by auto
        show ?thesis
        proof (cases sv)
          case None
          with assms gate miss n c Inr t sv have r: "r = Some t"
            and s': "s' = (if startsWith i (js ''group_'')
                           then createAndPinGroupInfo C E t dn i s3
                           else createAndPinUserInfo C E t dn i s3)"
            by (auto simp: getOrCreateTopic_def)
          from s' base3 userInfo_frame [of C E t dn i s3] groupInfo_frame [of C E t dn i s3]
          have "topicMapping s' = (topicMapping s)(i \<mapsto> t)"
            "reverseTopicMapping s' = (reverseTopicMapping s)(t \<mapsto> i)"
            "telegramBot s'" "creations (history s') = creations (history s) + 1"
            by (auto split: if_splits)
          with r t iss show ?thesis by (intro goal3) auto
        next
          case (Some err)
          with assms gate miss n c Inr t sv
          have run: "getOrCreateTopic_catch C E i dn err s3 = (r, s')"
            by (auto simp: getOrCreateTopic_def)
          from catch_cases [OF run] consider
            (same) "r = None" "topicMapping s' = topicMapping s3"
              "reverseTopicMapping s' = reverseTopicMapping s3" "telegramBot s' = telegramBot s3"
              "creations (history s') \<le> creations (history s3) + 1"
              "creations (history s3) \<le> creations (history s')"
          | (again) t2 where "duplicateName err" "t2 \<noteq> 0" "issues_after E (history s3) t2"
              "topicMapping s' = (topicMapping s3)(i \<mapsto> t2)"
              "reverseTopicMapping s' = (reverseTopicMapping s3)(t2 \<mapsto> i)"
              "telegramBot s' = telegramBot s3"
              "creations (history s') = creations (history s3) + 1"
              "r = Some t2 \<or> r = None"
            by blast
          then show ?thesis
          proof cases
            case same
            with base3 t iss show ?thesis by (intro goal3) auto
          next
            case again
            have "save_raises_duplicate E"
              unfolding save_raises_duplicate_def using f3 Some again(1) by metis
            moreover have "\<exists>t u. t \<noteq> 0 \<and> (r = Some t \<or> r = None)
                      \<and> topicMapping s' = (topicMapping s)(i \<mapsto> t)
                      \<and> reverseTopicMapping s' = (reverseTopicMapping s)(u \<mapsto> i, t \<mapsto> i)"
              using again base3 by (intro exI [of _ t2] exI [of _ t]) auto
            ultimately show ?thesis using again base3 by (intro goal3) auto
          qed
        qed
      qed
    qed
  qed
qed

lemma miss_unmapped:
  assumes "strict_inverses s" "reverseTopicMapping s 0 = None" "\<not> truthy_num (topicMapping s i)"
  shows "topicMapping s i = None"
proof (cases "topicMapping s i")
  case (Some t)
  with assms(3) have "t = 0" by (simp add: truthy_num_def)
  with Some inv_fwd [OF assms(1), of i 0] assms(2) show ?thesis by simp
qed simp

lemma update_inverses:
  assumes "strict_inverses s" "topicMapping s i = None" "reverseTopicMapping s t = None"
    "topicMapping s' = (topicMapping s)(i \<mapsto> t)"
    "reverseTopicMapping s' = (reverseTopicMapping s)(t \<mapsto> i)"
  shows "strict_inverses s'"
  using setMapping_inverses [OF assms(1-3)] assms(4,5)
    strict_inverses_cong [of s' "setMapping i t s"]
  by simp

lemma removeOldMapping_inverses:
  assumes "strict_inverses s" "topicMapping s i = Some t"
  shows "strict_inverses (removeOldMapping i t s)"
  unfolding strict_inverses_def
proof (intro allI)
  fix j u
  show "topicMapping (removeOldMapping i t s) j = Some u
        \<longleftrightarrow> reverseTopicMapping (removeOldMapping i t s) u = Some j"
    using inv_fwd [OF assms(1), of j u] inv_bwd [OF assms(1), of u j]
      inv_fwd [OF assms(1), of j t] inv_bwd [OF assms(1), of u i]
      inv_fwd [OF assms(1), of i t] assms(2)
    by (cases "j = i"; cases "u = t") (auto simp: removeOldMapping_def)
qed

lemma getOrCreate_invariant:
  assumes inv: "strict_inverses s" and z: "reverseTopicMapping s 0 = None"
    and fresh: "fresh_ids E s"
    and save: "\<not> save_raises_duplicate E"
    and run: "getOrCreateTopic C E i dn s = (r, s')"
  shows "strict_inverses s' \<and> reverseTopicMapping s' 0 = None
       \<and> (\<forall>t. r = Some t \<longrightarrow> topicMapping s' i = Some t \<and> reverseTopicMapping s' t = Some i)
       \<and> (\<forall>j. j \<noteq> i \<longrightarrow> topicMapping s' j = topicMapping s j)
       \<and> (\<forall>t. reverseTopicMapping s t \<noteq> None \<longrightarrow> reverseTopicMapping s' t = reverseTopicMapping s t)"
proof -
  from getOrCreate_cases [OF run] save consider
    (closed) "r = None" "s' = s"
  | (hit) "r = topicMapping s i" "s' = s"
  | (none) "\<not> truthy_num (topicMapping s i)" "r = None" "topicMapping s' = topicMapping s"
      "reverseTopicMapping s' = reverseTopicMapping s"
  | (made) t where "\<not> truthy_num (topicMapping s i)" "t \<noteq> 0" "issues_after E (history s) t"
      "r = Some t \<or> r = None"
      "topicMapping s' = (topicMapping s)(i \<mapsto> t)"
      "reverseTopicMapping s' = (reverseTopicMapping s)(t \<mapsto> i)"
    by blast
  then show ?thesis
  proof cases
    case closed
    with inv z show ?thesis by simp
  next
    case hit
    with inv z inv_fwd [OF inv, of i] show ?thesis by simp
  next
    case none
    with inv z strict_inverses_cong [of s' s] show ?thesis by simp
  next
    case made
    have un: "topicMapping s i = None" using miss_unmapped [OF inv z made(1)] .
    have fr: "reverseTopicMapping s t = None" using fresh made(3) by (simp add: fresh_ids_def)
    have "strict_inverses s'" using update_inverses [OF inv un fr made(5,6)] .
    with made z fr show ?thesis by auto
  qed
qed

lemma sendMessage_inverses:
  assumes "telegramBot_sendMessage E chat txt opts s = (r, s')"
  shows "strict_inverses s' = strict_inverses s \<and> topicMapping s' = topicMapping s
       \<and> reverseTopicMapping s' = reverseTopicMapping s"
  using sendMessage_frame [OF assms] strict_inverses_cong [of s' s] by simp

lemma sender_invariant:
  assumes inv: "strict_inverses s" and z: "reverseTopicMapping s 0 = None"
    and fresh: "fresh_ids E s"
    and save: "\<not> save_raises_duplicate E"
    and own: "\<forall>ident. identifier = Some ident \<longrightarrow> topicMapping s ident = message_thread_id opts"
    and run: "sendToTelegramWithRetry C E chat msg opts identifier displayName s = (r, s')"
  shows "strict_inverses s' \<and> reverseTopicMapping s' 0 = None
       \<and> (\<forall>j. Some j \<noteq> identifier \<longrightarrow> topicMapping s' j = topicMapping s j)"
proof -
  obtain r1 s1 where first: "telegramBot_sendMessage E chat msg opts s = (r1, s1)"
    by (metis prod.exhaust)
  note f1 = sendMessage_inverses [OF first]
  show ?thesis
  proof (cases "\<exists>e. r1 = Inl e \<and> truthy_str identifier \<and> truthy_str displayName
                  \<and> truthy_num (message_thread_id opts) \<and> threadMissing e")
    case False
    with run first have "s' = s1"
      by (auto simp: sendToTelegramWithRetry_def split: sum.splits)
    with f1 inv z show ?thesis by simp
  next
    case True
    then obtain e ident name old where e: "r1 = Inl e" "threadMissing e"
      and i: "identifier = Some ident" and n: "displayName = Some name"
      and o: "message_thread_id opts = Some old"
      and tr: "truthy_str identifier" "truthy_str displayName" "truthy_num (message_thread_id opts)"
      by (auto simp: truthy_str_def truthy_num_def split: option.splits)
    obtain r2 s2 where g: "getOrCreateTopic C E ident name (removeOldMapping ident old s1) = (r2, s2)"
      by (metis prod.exhaust)
    have m: "topicMapping s1 ident = Some old" using own i o f1 by simp
    have inv1: "strict_inverses s1" using f1 inv by simp
    have inv2: "strict_inverses (removeOldMapping ident old s1)"
      using removeOldMapping_inverses [OF inv1 m] .
    have z2: "reverseTopicMapping (removeOldMapping ident old s1) 0 = None"
      using z f1 by (simp add: removeOldMapping_def)
    obtain es where es: "history s1 = history s @ es"
      using sendMessage_frame [OF first] by blast
    have fresh2: "fresh_ids E (removeOldMapping ident old s1)"
      unfolding fresh_ids_def
    proof (intro allI impI)
      fix t assume "issues_after E (history (removeOldMapping ident old s1)) t"
      then have "issues_after E (history s @ es) t" using es by (simp add: removeOldMapping_def)
      then have "reverseTopicMapping s t = None"
        using fresh issues_after_mono unfolding fresh_ids_def by blast
      then show "reverseTopicMapping (removeOldMapping ident old s1) t = None"
        using f1 by (simp add: removeOldMapping_def)
    qed
    note G = getOrCreate_invariant [OF inv2 z2 fresh2 save g]
    have other: "\<forall>j. j \<noteq> ident \<longrightarrow> topicMapping s2 j = topicMapping s j"
      using G f1 by (simp add: removeOldMapping_def)
    show ?thesis
    proof (cases "truthy_num r2")
      case False
      with run first e i n o tr g have "s' = s2"
        by (simp add: sendToTelegramWithRetry_def)
      with G other i show ?thesis by auto
    next
      case True
      with run first e i n o tr g
      have "telegramBot_sendMessage E chat msg (opts\<lparr>message_thread_id := r2\<rparr>) s2 = (r, s')"
        by (simp add: sendToTelegramWithRetry_def)
      from sendMessage_inverses [OF this] G other i show ?thesis by auto
    qed
  qed
qed

lemmas registry_simps =
  getOrCreateTopic_def getOrCreateTopic_catch_def firstTopicName_def retryTopicName_def
  getContactName_def telegramBot_createForumTopic_def saveTelegramTopic_def setMapping_def
  createAndPinUserInfo_def createAndPinGroupInfo_def getUserInfo_def
  telegramBot_sendMessage_def telegramBot_pinChatMessage_def infoOptions_def
  truthy_num_def truthy_str_def icon_color_def duplicateName_def
  sendToTelegramWithRetry_def removeOldMapping_def threadMissing_def



section \<open>The gate, idempotence and the inverse invariant\<close>

text \<open>
  Claim C10. When topic creation is switched off in the configuration, or the destination
  client is not initialised, \<open>getOrCreateTopic\<close> returns \<open>null\<close> and leaves the whole
  state as it was: no map is read or written and no request is recorded, whether or not
  the identifier already has an entry.
\<close>

theorem getOrCreateTopic_gate_closed:
  "\<not> createTopics C \<or> \<not> telegramBot s \<Longrightarrow> getOrCreateTopic C E i dn s = (None, s)"
  by (auto simp: getOrCreateTopic_def)

text \<open>With creation switched off, and again with no client, the contact that is bridged
  to thread 5 gets \<open>null\<close>.\<close>

theorem getOrCreateTopic_gate_closed_witness:
  "\<not> createTopics (config_on\<lparr>createTopics := False\<rparr>)
 \<and> topicMapping registered (js ''15551234567'') = Some 5
 \<and> getOrCreateTopic (config_on\<lparr>createTopics := False\<rparr>) world_ok (js ''15551234567'')
       (js ''Alice'') registered = (None, registered)
 \<and> \<not> telegramBot (registered\<lparr>telegramBot := False\<rparr>)
 \<and> getOrCreateTopic config_on world_ok (js ''15551234567'') (js ''Alice'')
       (registered\<lparr>telegramBot := False\<rparr>) = (None, registered\<lparr>telegramBot := False\<rparr>)"
  using getOrCreateTopic_gate_closed [where C = "config_on\<lparr>createTopics := False\<rparr>"
          and s = registered and E = world_ok and i = "js ''15551234567''" and dn = "js ''Alice''"]
        getOrCreateTopic_gate_closed [where C = config_on
          and s = "registered\<lparr>telegramBot := False\<rparr>" and E = world_ok
          and i = "js ''15551234567''" and dn = "js ''Alice''"]
  by (simp add: registered_def boot_def)




text \<open>
  What does hold of the two maps. Start from maps that are strict inverses, with no entry for the
  falsy thread id 0, in a world that issues only thread ids the reverse map does not hold
  and whose database write never fails with an error of the duplicate-name class. Then
  after \<open>getOrCreateTopic\<close> the maps are again strict inverses; if it returned a thread id
  \<open>t\<close> for \<open>i\<close> then \<open>i\<close> resolves to \<open>t\<close> and \<open>t\<close> resolves back to \<open>i\<close>; and no other
  identifier's entry has changed. After \<open>sendToTelegramWithRetry\<close> the maps are again strict
  inverses and no other identifier's entry has changed, provided the thread id in the
  options is the one the identifier is mapped to.
\<close>

theorem inverses_preserved:
  assumes "strict_inverses s" and "reverseTopicMapping s 0 = None"
    and "fresh_ids E s" and "\<not> save_raises_duplicate E"
  shows "(case getOrCreateTopic C E i dn s of (r, s') \<Rightarrow>
            strict_inverses s' \<and> reverseTopicMapping s' 0 = None
          \<and> (\<forall>t. r = Some t \<longrightarrow> topicMapping s' i = Some t \<and> reverseTopicMapping s' t = Some i)
          \<and> (\<forall>j. j \<noteq> i \<longrightarrow> topicMapping s' j = topicMapping s j))
       \<and> ((\<forall>j. who = Some j \<longrightarrow> topicMapping s j = message_thread_id opts) \<longrightarrow>
          (case sendToTelegramWithRetry C E chat msg opts who dname s of (r, s') \<Rightarrow>
             strict_inverses s' \<and> reverseTopicMapping s' 0 = None
           \<and> (\<forall>j. Some j \<noteq> who \<longrightarrow> topicMapping s' j = topicMapping s j)))"
proof (intro conjI impI)
  obtain r s' where run: "getOrCreateTopic C E i dn s = (r, s')" by (metis prod.exhaust)
  from getOrCreate_invariant [OF assms run] run
  show "case getOrCreateTopic C E i dn s of (r, s') \<Rightarrow>
            strict_inverses s' \<and> reverseTopicMapping s' 0 = None
          \<and> (\<forall>t. r = Some t \<longrightarrow> topicMapping s' i = Some t \<and> reverseTopicMapping s' t = Some i)
          \<and> (\<forall>j. j \<noteq> i \<longrightarrow> topicMapping s' j = topicMapping s j)"
    by simp
next
  assume own: "\<forall>j. who = Some j \<longrightarrow> topicMapping s j = message_thread_id opts"
  obtain r s' where run: "sendToTelegramWithRetry C E chat msg opts who dname s = (r, s')"
    by (metis prod.exhaust)
  from sender_invariant [OF assms own run] run
  show "case sendToTelegramWithRetry C E chat msg opts who dname s of (r, s') \<Rightarrow>
             strict_inverses s' \<and> reverseTopicMapping s' 0 = None
           \<and> (\<forall>j. Some j \<noteq> who \<longrightarrow> topicMapping s' j = topicMapping s j)"
    by simp
qed


lemma registered_inverses: "strict_inverses registered"
  by (auto simp: strict_inverses_def registered_def boot_def split: if_splits)

lemma gone_fresh: "fresh_ids (world_thread_gone g) registered"
  by (auto simp: fresh_ids_def issues_after_def world_thread_gone_def world_ok_def registered_def
      boot_def)

lemma gone_save: "\<not> save_raises_duplicate (world_thread_gone g)"
  by (simp add: save_raises_duplicate_def world_thread_gone_def world_ok_def)


text \<open>The contact bridged to thread 5, in the world where thread 5 is gone: a new contact
  gets thread 1000; a message for the old contact recreates its thread as 1001 and the
  entry for 5 is dropped.\<close>

theorem inverses_preserved_example:
  "strict_inverses registered \<and> reverseTopicMapping registered 0 = None
 \<and> fresh_ids (world_thread_gone 5) registered \<and> \<not> save_raises_duplicate (world_thread_gone 5)
 \<and> topicMapping registered (js ''15551234567'') = message_thread_id (textOptions 5)
 \<and> fst (getOrCreateTopic config_on (world_thread_gone 5) (js ''447700900123'') (js ''Bob'') registered)
     = Some 1000
 \<and> strict_inverses
     (snd (getOrCreateTopic config_on (world_thread_gone 5) (js ''447700900123'') (js ''Bob'') registered))
 \<and> topicMapping
     (snd (getOrCreateTopic config_on (world_thread_gone 5) (js ''447700900123'') (js ''Bob'') registered))
     (js ''447700900123'') = Some 1000
 \<and> reverseTopicMapping
     (snd (getOrCreateTopic config_on (world_thread_gone 5) (js ''447700900123'') (js ''Bob'') registered))
     1000 = Some (js ''447700900123'')
 \<and> strict_inverses
     (snd (sendToTelegramWithRetry config_on (world_thread_gone 5) (- 1001) (js ''hi'') (textOptions 5)
            (Some (js ''15551234567'')) (Some (js ''Alice'')) registered))
 \<and> topicMapping
     (snd (sendToTelegramWithRetry config_on (world_thread_gone 5) (- 1001) (js ''hi'') (textOptions 5)
            (Some (js ''15551234567'')) (Some (js ''Alice'')) registered))
     (js ''15551234567'') = Some 1001
 \<and> reverseTopicMapping
     (snd (sendToTelegramWithRetry config_on (world_thread_gone 5) (- 1001) (js ''hi'') (textOptions 5)
            (Some (js ''15551234567'')) (Some (js ''Alice'')) registered))
     5 = None"
proof -
  have own: "topicMapping registered (js ''15551234567'') = message_thread_id (textOptions 5)"
    by (simp add: registered_def boot_def textOptions_def)
  have z: "reverseTopicMapping registered 0 = None"
    by (simp add: registered_def boot_def)
  note T = inverses_preserved [OF registered_inverses z gone_fresh [of 5] gone_save [of 5],
      where C = config_on and i = "js ''447700900123''" and dn = "js ''Bob''"
        and who = "Some (js ''15551234567'')" and opts = "textOptions 5"
        and chat = "- 1001" and msg = "js ''hi''" and dname = "Some (js ''Alice'')"]
  have e1: "fst (getOrCreateTopic config_on (world_thread_gone 5) (js ''447700900123'') (js ''Bob'')
              registered) = Some 1000"
    by (simp add: registry_simps world_simps Let_def)
  have e2: "topicMapping
     (snd (sendToTelegramWithRetry config_on (world_thread_gone 5) (- 1001) (js ''hi'') (textOptions 5)
            (Some (js ''15551234567'')) (Some (js ''Alice'')) registered))
     (js ''15551234567'') = Some 1001"
    by (simp add: registry_simps world_simps Let_def)
  have e3: "reverseTopicMapping
     (snd (sendToTelegramWithRetry config_on (world_thread_gone 5) (- 1001) (js ''hi'') (textOptions 5)
            (Some (js ''15551234567'')) (Some (js ''Alice'')) registered))
     5 = None"
    by (simp add: registry_simps world_simps Let_def)
  from T own e1 e2 e3 registered_inverses z gone_fresh [of 5] gone_save [of 5] show ?thesis
    by (simp add: split_def)
qed


text \<open>
  Claim C2. The two maps do not remain strict inverses after the invalidate and recreate
  of \<open>sendToTelegramWithRetry\<close>. The contact is bridged to thread 5 in both maps, and
  thread 5 is gone. The first send of the run deletes both entries, recreates the thread
  as 1001, and leaves the maps strict inverses. The second send of the same run still
  carries thread 5 in its options: line 435 deletes the contact's entry, now 1001; line
  436 deletes the entry of thread 5, which is no longer there; and one more thread, 1009,
  is created. Afterwards the contact resolves to 1009 only, while both 1001 and 1009
  resolve to the contact: two live reverse entries for one identifier, and two threads
  created for one conversation.
\<close>

theorem stale_thread_id_breaks_inverses:
  "strict_inverses registered
 \<and> topicMapping registered (js ''15551234567'') = message_thread_id (textOptions 5)
 \<and> strict_inverses first_send
 \<and> topicMapping first_send (js ''15551234567'') = Some 1001
 \<and> reverseTopicMapping first_send 1001 = Some (js ''15551234567'')
 \<and> reverseTopicMapping first_send 5 = None
 \<and> topicMapping second_send (js ''15551234567'') = Some 1009
 \<and> reverseTopicMapping second_send 1009 = Some (js ''15551234567'')
 \<and> reverseTopicMapping second_send 1001 = Some (js ''15551234567'')
 \<and> \<not> strict_inverses second_send
 \<and> creations (history second_send) = 2"
proof -
  let ?i = "js ''15551234567''"
  have own: "topicMapping registered ?i = message_thread_id (textOptions 5)"
    by (simp add: registered_def boot_def textOptions_def)
  have z: "reverseTopicMapping registered 0 = None"
    by (simp add: registered_def boot_def)
  have run: "sendToTelegramWithRetry config_on (world_thread_gone 5) (- 1001) (js ''hi'')
            (textOptions 5) (Some ?i) (Some (js ''Alice'')) registered
      = (fst (sendToTelegramWithRetry config_on (world_thread_gone 5) (- 1001) (js ''hi'')
            (textOptions 5) (Some ?i) (Some (js ''Alice'')) registered), first_send)"
    by (simp add: first_send_def)
  have inv1: "strict_inverses first_send"
    using sender_invariant [OF registered_inverses z gone_fresh [of 5] gone_save [of 5] _ run] own
    by simp
  have f1: "topicMapping first_send ?i = Some 1001"
    by (simp add: first_send_def registry_simps world_simps Let_def)
  have f2: "reverseTopicMapping first_send 1001 = Some ?i"
    using inv_fwd [OF inv1 f1] .
  have f3: "reverseTopicMapping first_send 5 = None"
    by (simp add: first_send_def registry_simps world_simps Let_def)
  have a: "topicMapping second_send ?i = Some 1009"
    by (simp add: second_send_def first_send_def registry_simps world_simps Let_def)
  have b: "reverseTopicMapping second_send 1001 = Some ?i"
    by (simp add: second_send_def first_send_def registry_simps world_simps Let_def)
  have c: "reverseTopicMapping second_send 1009 = Some ?i"
    by (simp add: second_send_def first_send_def registry_simps world_simps Let_def)
  have d: "creations (history second_send) = 2"
    by (simp add: second_send_def first_send_def registry_simps world_simps Let_def)
  have "\<not> strict_inverses second_send"
  proof
    assume "strict_inverses second_send"
    from inv_bwd [OF this b] a show False by simp
  qed
  with own registered_inverses inv1 f1 f2 f3 a b c d show ?thesis by simp
qed

section \<open>The duplicate-name retry\<close>

lemma getContactName_again:
  assumes "getContactName w f s = (n, s1)" and "contactsCache s2 = contactsCache s1"
  shows "getContactName w f s2 = (n, s2)"
proof (cases "truthy_str (contactsCache s w)")
  case True
  with assms show ?thesis
    by (auto simp: getContactName_def split: option.splits)
next
  case False
  have ne: "js ''Contact '' @ w \<noteq> []" by (simp add: js_def)
  from False assms ne show ?thesis
    by (auto simp: getContactName_def Let_def truthy_str_def split: option.splits if_splits)
qed

lemma retry_name:
  assumes "firstTopicName i dn s = (name, s1)" and "contactsCache s2 = contactsCache s1"
  shows "retryTopicName i dn stamp s2
         = (if startsWith i (js ''group_'') then name @ js '' ('' @ stamp @ js '')''
            else name @ js '' '' @ stamp, s2)"
proof (cases "startsWith i (js ''group_'')")
  case True
  with assms show ?thesis by (simp add: firstTopicName_def retryTopicName_def)
next
  case False
  obtain c s' where c: "getContactName i dn s = (c, s')" by (metis prod.exhaust)
  with assms False have n: "name = c @ js '' (+'' @ i @ js '')''" and s1: "s1 = s'"
    by (auto simp: firstTopicName_def)
  have j: "js '') '' = js '')'' @ js '' ''" by (simp add: js_def)
  from getContactName_again [OF c] assms(2) s1
  have "getContactName i dn s2 = (c, s2)" by simp
  with False n j show ?thesis by (simp add: retryTopicName_def)
qed

lemma toString_nat_snoc:
  "\<exists>xs. toString_nat n = xs @ [48 + of_nat (n mod 10)]"
  by (subst toString_nat.simps) auto

lemma toString_nat_step:
  "10 \<le> n \<Longrightarrow> toString_nat n = toString_nat (n div 10) @ [48 + of_nat (n mod 10)]"
  by (subst toString_nat.simps) simp

lemma last_four_digits:
  assumes "1000 \<le> n"
  shows "slice_last 4 (toString_nat n)
         = [48 + of_nat (n div 1000 mod 10), 48 + of_nat (n div 100 mod 10),
            48 + of_nat (n div 10 mod 10), 48 + of_nat (n mod 10)]"
proof -
  have a: "10 \<le> n" "10 \<le> n div 10" "10 \<le> n div 10 div 10" using assms by auto
  obtain xs where xs: "toString_nat (n div 10 div 10 div 10)
      = xs @ [48 + of_nat (n div 10 div 10 div 10 mod 10)]"
    using toString_nat_snoc by blast
  have d: "n div 10 div 10 = n div 100" "n div 10 div 10 div 10 = n div 1000"
    by (simp_all add: div_mult2_eq)
  have "toString_nat n = xs @ [48 + of_nat (n div 1000 mod 10), 48 + of_nat (n div 100 mod 10),
            48 + of_nat (n div 10 mod 10), 48 + of_nat (n mod 10)]"
    using toString_nat_step [OF a(1)] toString_nat_step [OF a(2)] toString_nat_step [OF a(3)] xs d
    by simp
  then show ?thesis by (simp add: slice_last_def)
qed

text \<open>
  Claim C4, as amended. Take a call of \<open>getOrCreateTopic\<close> that reaches the creation
  request (creation is switched on, the client is there, the identifier has no truthy
  entry) and whose request fails with \<open>err\<close>. If \<open>err\<close> is not of the duplicate-name
  class, the call returns \<open>null\<close> having made that one request and no other call, and the
  maps are untouched. If it is, the call reads the clock and makes exactly one more
  creation request, under the first name followed by the last four code units of the
  clock's decimal string (its last four digits once the clock is at least 1000): in
  parentheses for a group, after a space for a contact. If that retry raises or yields no
  thread id, the call returns \<open>null\<close>, nothing else is called, both maps are as before, and
  a later call for the identifier makes a creation request again. If the retry yields a
  thread id, the identifier is entered in both maps and the database write follows; the
  call returns the thread id when the write succeeds and \<open>null\<close> when it raises, and either
  way the identifier stays mapped, so that a later call returns the thread id and requests
  nothing.
\<close>

theorem duplicate_name_retry:
  assumes gate: "createTopics C" "telegramBot s"
    and miss: "\<not> truthy_num (topicMapping s i)"
    and fail: "tg_createForumTopic E (history s) (groupId C) (fst (firstTopicName i dn s))
                 (icon_color i) = Inl err"
  shows "let name = fst (firstTopicName i dn s);
             h1 = history s @ [CreateForumTopic (groupId C) name (icon_color i)];
             stamp = slice_last 4 (toString_nat (date_now E h1));
             name' = (if startsWith i (js ''group_'') then name @ js '' ('' @ stamp @ js '')''
                      else name @ js '' '' @ stamp);
             h2 = h1 @ [DateNow, CreateForumTopic (groupId C) name' (icon_color i)];
             retry = tg_createForumTopic E (h1 @ [DateNow]) (groupId C) name' (icon_color i);
             got = (case retry of
                      Inl retryError \<Rightarrow> None
                    | Inr result \<Rightarrow> if truthy_num result then result else None)
         in (1000 \<le> date_now E h1 \<longrightarrow>
               stamp = [48 + of_nat (date_now E h1 div 1000 mod 10),
                        48 + of_nat (date_now E h1 div 100 mod 10),
                        48 + of_nat (date_now E h1 div 10 mod 10),
                        48 + of_nat (date_now E h1 mod 10)])
          \<and> (case getOrCreateTopic C E i dn s of (r, s') \<Rightarrow>
              (\<not> duplicateName err \<longrightarrow>
                 r = None \<and> history s' = h1 \<and> topicMapping s' = topicMapping s
                 \<and> reverseTopicMapping s' = reverseTopicMapping s)
            \<and> (duplicateName err \<longrightarrow>
                 take (length h2) (history s') = h2
                 \<and> creations (history s') = creations (history s) + 2
                 \<and> (case got of
                      None \<Rightarrow>
                        r = None \<and> history s' = h2 \<and> topicMapping s' = topicMapping s
                        \<and> reverseTopicMapping s' = reverseTopicMapping s
                        \<and> creations (history s')
                            < creations (history (snd (getOrCreateTopic C E i dn' s')))
                    | Some t \<Rightarrow>
                        history s' = h2 @ [SaveTelegramTopic i t dn]
                        \<and> topicMapping s' = (topicMapping s)(i \<mapsto> t)
                        \<and> reverseTopicMapping s' = (reverseTopicMapping s)(t \<mapsto> i)
                        \<and> r = (case db_saveTelegramTopic E h2 i t dn of
                                 None \<Rightarrow> Some t
                               | Some retryError \<Rightarrow> None)
                        \<and> getOrCreateTopic C E i dn' s' = (Some t, s'))))"
proof -
  obtain name s1 where n: "firstTopicName i dn s = (name, s1)" by (metis prod.exhaust)
  note f1 = firstTopicName_frame [OF n]
  define h1 where "h1 = history s @ [CreateForumTopic (groupId C) name (icon_color i)]"
  define stamp where "stamp = slice_last 4 (toString_nat (date_now E h1))"
  define name' where "name' = (if startsWith i (js ''group_'') then name @ js '' ('' @ stamp @ js '')''
                      else name @ js '' '' @ stamp)"
  define h2 where "h2 = h1 @ [DateNow, CreateForumTopic (groupId C) name' (icon_color i)]"
  define retry where "retry = tg_createForumTopic E (h1 @ [DateNow]) (groupId C) name' (icon_color i)"
  define got where "got = (case retry of
                      Inl retryError \<Rightarrow> None
                    | Inr result \<Rightarrow> if truthy_num result then result else None)"
  define s2 where "s2 = emit (CreateForumTopic (groupId C) name (icon_color i)) s1"
  define s3 where "s3 = emit DateNow s2"
  define s4 where "s4 = emit (CreateForumTopic (groupId C) name' (icon_color i)) s3"
  have tb: "telegramBot s1" "telegramBot s2" "telegramBot s3" "telegramBot s4"
    using f1 gate by (simp_all add: s2_def s3_def s4_def)
  have hs: "history s2 = h1" "history s3 = h1 @ [DateNow]" "history s4 = h2"
    using f1 by (simp_all add: s2_def s3_def s4_def h1_def h2_def)
  have maps: "topicMapping s4 = topicMapping s" "reverseTopicMapping s4 = reverseTopicMapping s"
    "topicMapping s2 = topicMapping s" "reverseTopicMapping s2 = reverseTopicMapping s"
    using f1 by (simp_all add: s2_def s3_def s4_def)
  have create1: "telegramBot_createForumTopic E (groupId C) name (icon_color i) s1 = (Inl err, s2)"
    using fail n f1 tb by (simp add: telegramBot_createForumTopic_def s2_def)
  have top: "getOrCreateTopic C E i dn s = getOrCreateTopic_catch C E i dn err s2"
    using gate miss n create1 by (simp add: getOrCreateTopic_def)
  have rn: "retryTopicName i dn stamp s3 = (name', s3)"
    using retry_name [OF n, of s3 stamp] by (simp add: s3_def s2_def name'_def)
  have create2: "telegramBot_createForumTopic E (groupId C) name' (icon_color i) s3 = (retry, s4)"
    using tb hs by (simp add: telegramBot_createForumTopic_def s4_def retry_def)
  have catch: "getOrCreateTopic_catch C E i dn err s2 =
      (case retry of
         Inl retryError \<Rightarrow> (None, s4)
       | Inr result \<Rightarrow>
           (case result of
              None \<Rightarrow> (None, s4)
            | Some threadId \<Rightarrow>
                if threadId = 0 then (None, s4)
                else (case saveTelegramTopic E i threadId dn (setMapping i threadId s4) of
                        (Some retryError, s5) \<Rightarrow> (None, s5)
                      | (None, s5) \<Rightarrow> (Some threadId, s5))))"
    if "duplicateName err"
    using that rn create2 hs
    by (simp add: getOrCreateTopic_catch_def Date_now_def Let_def s3_def [symmetric] stamp_def)
  obtain r s' where run: "getOrCreateTopic C E i dn s = (r, s')" by (metis prod.exhaust)
  have nodup: "r = None \<and> history s' = h1 \<and> topicMapping s' = topicMapping s
                 \<and> reverseTopicMapping s' = reverseTopicMapping s"
    if "\<not> duplicateName err"
    using that run top hs maps by (simp add: getOrCreateTopic_catch_def)
  have c4: "creations (history s4) = creations (history s) + 2"
    using hs by (simp add: h2_def h1_def)
  have dup1: "take (length h2) (history s') = h2 \<and> creations (history s') = creations (history s) + 2"
    if d: "duplicateName err"
  proof -
    from run top catch [OF d] consider "s' = s4"
      | t s5 sv where "saveTelegramTopic E i t dn (setMapping i t s4) = (sv, s5)" "s' = s5"
      by (auto split: sum.splits option.splits if_splits prod.splits)
    then show ?thesis
    proof cases
      case 1
      with hs c4 show ?thesis by simp
    next
      case 2
      from save_frame [OF 2(1)] 2(2) hs c4 show ?thesis by simp
    qed
  qed
  have dup2: "r = None \<and> history s' = h2 \<and> topicMapping s' = topicMapping s
                      \<and> reverseTopicMapping s' = reverseTopicMapping s
                      \<and> creations (history s') < creations (history (snd (getOrCreateTopic C E i dn' s')))"
    if d: "duplicateName err" and g: "got = None"
  proof -
    from g have nr: "\<forall>t. retry = Inr (Some t) \<longrightarrow> t = 0"
      by (auto simp: got_def truthy_num_def split: sum.splits option.splits if_splits)
    from run top catch [OF d] nr have r: "r = None" and s': "s' = s4"
      by (auto split: sum.splits option.splits if_splits)
    obtain r2 s'' where again: "getOrCreateTopic C E i dn' s4 = (r2, s'')" by (metis prod.exhaust)
    have "\<not> truthy_num (topicMapping s4 i)" using miss maps by simp
    with getOrCreate_cases [OF again] gate tb
    have "creations (history s4) < creations (history s'')" by auto
    with r s' hs maps again show ?thesis by simp
  qed
  have dup3: "history s' = h2 @ [SaveTelegramTopic i t dn]
            \<and> topicMapping s' = (topicMapping s)(i \<mapsto> t)
            \<and> reverseTopicMapping s' = (reverseTopicMapping s)(t \<mapsto> i)
            \<and> r = (case db_saveTelegramTopic E h2 i t dn of
                     None \<Rightarrow> Some t
                   | Some retryError \<Rightarrow> None)
            \<and> getOrCreateTopic C E i dn' s' = (Some t, s')"
    if d: "duplicateName err" and g: "got = Some t" for t
  proof -
    from g have rt: "retry = Inr (Some t)" and t0: "t \<noteq> 0"
      by (auto simp: got_def truthy_num_def split: sum.splits option.splits if_splits)
    obtain sv s5 where sv: "saveTelegramTopic E i t dn (setMapping i t s4) = (sv, s5)"
      by (metis prod.exhaust)
    from save_frame [OF sv] hs maps tb
    have fr: "topicMapping s5 = (topicMapping s)(i \<mapsto> t)"
      "reverseTopicMapping s5 = (reverseTopicMapping s)(t \<mapsto> i)"
      "telegramBot s5" "sv = db_saveTelegramTopic E h2 i t dn"
      "history s5 = h2 @ [SaveTelegramTopic i t dn]"
      by simp_all
    from run top catch [OF d] rt t0 sv
    have s': "s' = s5" and r: "r = (case sv of None \<Rightarrow> Some t | Some retryError \<Rightarrow> None)"
      by (auto split: option.splits)
    have again: "getOrCreateTopic C E i dn' s5 = (Some t, s5)"
      using gate fr t0 by (simp add: getOrCreateTopic_def truthy_num_def)
    from s' r fr again show ?thesis by simp
  qed
  have final: "case getOrCreateTopic C E i dn s of (r, s') \<Rightarrow>
              (\<not> duplicateName err \<longrightarrow>
                 r = None \<and> history s' = h1 \<and> topicMapping s' = topicMapping s
                 \<and> reverseTopicMapping s' = reverseTopicMapping s)
            \<and> (duplicateName err \<longrightarrow>
                 take (length h2) (history s') = h2
                 \<and> creations (history s') = creations (history s) + 2
                 \<and> (case got of
                      None \<Rightarrow>
                        r = None \<and> history s' = h2 \<and> topicMapping s' = topicMapping s
                        \<and> reverseTopicMapping s' = reverseTopicMapping s
                        \<and> creations (history s')
                            < creations (history (snd (getOrCreateTopic C E i dn' s')))
                    | Some t \<Rightarrow>
                        history s' = h2 @ [SaveTelegramTopic i t dn]
                        \<and> topicMapping s' = (topicMapping s)(i \<mapsto> t)
                        \<and> reverseTopicMapping s' = (reverseTopicMapping s)(t \<mapsto> i)
                        \<and> r = (case db_saveTelegramTopic E h2 i t dn of
                                 None \<Rightarrow> Some t
                               | Some retryError \<Rightarrow> None)
                        \<and> getOrCreateTopic C E i dn' s' = (Some t, s')))"
  proof (cases got)
    case None
    from nodup dup1 dup2 [OF _ None] show ?thesis by (auto simp: run None)
  next
    case (Some t)
    from nodup dup1 dup3 [OF _ Some] show ?thesis by (auto simp: run Some)
  qed
  have four: "1000 \<le> date_now E h1 \<longrightarrow>
               stamp = [48 + of_nat (date_now E h1 div 1000 mod 10),
                        48 + of_nat (date_now E h1 div 100 mod 10),
                        48 + of_nat (date_now E h1 div 10 mod 10),
                        48 + of_nat (date_now E h1 mod 10)]"
    unfolding stamp_def using last_four_digits by blast
  show ?thesis
    unfolding Let_def n fst_conv
    using conjI [OF four final] unfolding got_def h2_def retry_def name'_def stamp_def h1_def .
qed

text \<open>A new contact where every name is taken: two requests, the second under the
  name with \<open>1234\<close> appended, then \<open>null\<close> and no entry. Where only the first name is
  taken, the retry yields thread 1002.\<close>

theorem duplicate_name_retry_witness:
  "createTopics config_on \<and> telegramBot boot
 \<and> \<not> truthy_num (topicMapping boot (js ''15551234567''))
 \<and> duplicateName (Error (js ''Bad Request: a topic with this name already exists''))
 \<and> fst (getOrCreateTopic config_on world_names_taken (js ''15551234567'') (js ''Alice'') boot) = None
 \<and> history (snd (getOrCreateTopic config_on world_names_taken (js ''15551234567'') (js ''Alice'') boot))
     = [CreateForumTopic (- 1001) (js ''Alice (+15551234567)'') 0x6fb9f0, DateNow,
        CreateForumTopic (- 1001) (js ''Alice (+15551234567) 1234'') 0x6fb9f0]
 \<and> topicMapping (snd (getOrCreateTopic config_on world_names_taken (js ''15551234567'')
                         (js ''Alice'') boot)) (js ''15551234567'') = None
 \<and> fst (getOrCreateTopic config_on world_first_name_taken (js ''15551234567'') (js ''Alice'') boot)
     = Some 1002"
  using duplicate_name_retry [where C = config_on and s = boot and i = "js ''15551234567''"
      and E = world_names_taken and dn = "js ''Alice''" and dn' = "js ''Alice''"
      and err = "Error (js ''Bad Request: a topic with this name already exists'')"]
  by (simp add: registry_simps world_simps Let_def slice_last_def)

text \<open>The claim as stated fails when the retry obtains a thread and the database write
  after it raises (lines 1044 to 1054): the call logs that the retry failed and returns
  \<open>null\<close>, yet the identifier is mapped to the new thread 1002 in both maps, and the next
  call returns 1002 without requesting anything.\<close>

theorem duplicate_name_retry_counterexample:
  "fst (getOrCreateTopic config_on world_database_down (js ''15551234567'') (js ''Alice'') boot) = None
 \<and> history (snd (getOrCreateTopic config_on world_database_down (js ''15551234567'') (js ''Alice'')
                   boot))
     = [CreateForumTopic (- 1001) (js ''Alice (+15551234567)'') 0x6fb9f0, DateNow,
        CreateForumTopic (- 1001) (js ''Alice (+15551234567) 1234'') 0x6fb9f0,
        SaveTelegramTopic (js ''15551234567'') 1002 (js ''Alice'')]
 \<and> topicMapping (snd (getOrCreateTopic config_on world_database_down (js ''15551234567'')
                         (js ''Alice'') boot)) (js ''15551234567'') = Some 1002
 \<and> reverseTopicMapping (snd (getOrCreateTopic config_on world_database_down (js ''15551234567'')
                                (js ''Alice'') boot)) 1002 = Some (js ''15551234567'')
 \<and> fst (getOrCreateTopic config_on world_database_down (js ''15551234567'') (js ''Alice'')
          (snd (getOrCreateTopic config_on world_database_down (js ''15551234567'') (js ''Alice'')
                  boot))) = Some 1002
 \<and> creations (history (snd (getOrCreateTopic config_on world_database_down (js ''15551234567'')
      (js ''Alice'')
      (snd (getOrCreateTopic config_on world_database_down (js ''15551234567'') (js ''Alice'')
              boot))))) = 2"
  by (simp add: registry_simps world_simps world_database_down_def Let_def slice_last_def)

section \<open>The retrying sender\<close>




section \<open>The identifier of an individual chat\<close>

lemma strip_plus_digits:
  assumes "list_all (\<lambda>c. isDigit c \<or> c = 43) xs" "43 \<notin> set (drop 1 xs)"
  shows "list_all isDigit (if startsWith xs [43] then drop 1 xs else xs)"
proof (cases xs)
  case Nil
  then show ?thesis by simp
next
  case (Cons c cs)
  with assms show ?thesis
    by (auto simp: list_all_iff)
qed

lemma split_on_first: "(case split_on 64 xs of p # ps \<Rightarrow> p | [] \<Rightarrow> []) = beforeAt xs"
  by (induction xs) (auto split: list.splits)

lemma keepDigitsPlus_filter: "keepDigitsPlus xs = filter (\<lambda>c. isDigit c \<or> c = 43) xs"
  by (induction xs) (auto simp: isDigit_def)

lemma dropLeadingPlus_substring:
  "dropLeadingPlus xs = (if startsWith xs [43] then drop 1 xs else xs)"
  by (cases xs) auto

lemma plus_is_no_digit: "\<not> isDigit 43"
  by (simp add: isDigit_def)

lemma digits_survive:
  "filter isDigit (dropLeadingPlus (keepDigitsPlus xs)) = filter isDigit xs"
proof -
  have a: "filter isDigit (keepDigitsPlus xs) = filter isDigit xs"
    by (induction xs) (auto simp: isDigit_def)
  have b: "filter isDigit (dropLeadingPlus ys) = filter isDigit ys" for ys
    by (cases ys) (auto simp: plus_is_no_digit)
  from a b show ?thesis by simp
qed

text \<open>
  Claim C5, as amended. The identifier of an individual chat is the sender's local part
  (the user field when it is there and not empty, otherwise the text before the first
  \<open>@\<close>) with every character other than a digit or \<open>+\<close> removed and then one leading \<open>+\<close>
  removed. So every digit of the local part is kept, in order; the identifier consists of
  digits and \<open>+\<close> signs only; and it consists of digits only exactly when no \<open>+\<close> is left
  in it, which is the case whenever the kept characters hold no \<open>+\<close> after their first
  position.
\<close>

theorem whatsappNumber_digits_or_plus:
  "whatsappNumber u sender = normalisedNumber u sender
 \<and> filter isDigit (whatsappNumber u sender) = filter isDigit (senderLocalPart u sender)
 \<and> list_all (\<lambda>c. isDigit c \<or> c = 43) (whatsappNumber u sender)
 \<and> (43 \<notin> set (drop 1 (filter (\<lambda>c. isDigit c \<or> c = 43) (senderLocalPart u sender)))
      \<longrightarrow> list_all isDigit (whatsappNumber u sender))
 \<and> (list_all isDigit (whatsappNumber u sender) \<longleftrightarrow> 43 \<notin> set (whatsappNumber u sender))"
proof (intro conjI impI)
  let ?f = "filter (\<lambda>c. isDigit c \<or> c = 43) (senderLocalPart u sender)"
  have local: "senderLocalPart u sender
      = (case u of None \<Rightarrow> beforeAt sender | Some v \<Rightarrow> if v = [] then beforeAt sender else v)"
    by (simp add: senderLocalPart_def truthy_str_def split_on_first split: option.splits)
  have number: "whatsappNumber u sender = dropLeadingPlus (keepDigitsPlus (senderLocalPart u sender))"
    by (simp add: whatsappNumber_def Let_def keepDigitsPlus_filter dropLeadingPlus_substring)
  show "whatsappNumber u sender = normalisedNumber u sender"
    unfolding number normalisedNumber_def local ..
  show "filter isDigit (whatsappNumber u sender) = filter isDigit (senderLocalPart u sender)"
    unfolding number by (rule digits_survive)
  have k: "list_all (\<lambda>c. isDigit c \<or> c = 43) ?f" by (simp add: list_all_iff)
  show a: "list_all (\<lambda>c. isDigit c \<or> c = 43) (whatsappNumber u sender)"
    using k by (auto simp: whatsappNumber_def Let_def list_all_iff dest: in_set_dropD)
  show "list_all isDigit (whatsappNumber u sender)" if "43 \<notin> set (drop 1 ?f)"
    using strip_plus_digits [OF k that] by (simp add: whatsappNumber_def Let_def)
  show "list_all isDigit (whatsappNumber u sender) \<longleftrightarrow> 43 \<notin> set (whatsappNumber u sender)"
    using a by (auto simp: list_all_iff isDigit_def)
qed

text \<open>A number written with a leading \<open>+\<close>, blanks, brackets and a dash.\<close>

theorem whatsappNumber_digits_or_plus_witness:
  "43 \<notin> set (drop 1 (filter (\<lambda>c. isDigit c \<or> c = 43)
                 (senderLocalPart None (js ''+1 (555) 123-4567@s.whatsapp.net''))))
 \<and> whatsappNumber None (js ''+1 (555) 123-4567@s.whatsapp.net'') = js ''15551234567''
 \<and> normalisedNumber None (js ''+1 (555) 123-4567@s.whatsapp.net'') = js ''15551234567''
 \<and> list_all isDigit (whatsappNumber None (js ''+1 (555) 123-4567@s.whatsapp.net''))"
  using whatsappNumber_digits_or_plus [of None "js ''+1 (555) 123-4567@s.whatsapp.net''"]
  by (simp add: whatsappNumber_def normalisedNumber_def senderLocalPart_def truthy_str_def
      isDigit_def js_def)

text \<open>The claim as stated fails for a sender with a \<open>+\<close> inside: it is kept. Of two
  leading \<open>+\<close> signs one is kept.\<close>

theorem whatsappNumber_counterexample:
  "whatsappNumber None (js ''1+2@s.whatsapp.net'') = js ''1+2''
 \<and> \<not> list_all isDigit (whatsappNumber None (js ''1+2@s.whatsapp.net''))
 \<and> whatsappNumber None (js ''++12@s.whatsapp.net'') = js ''+12''"
  by (simp add: whatsappNumber_def senderLocalPart_def truthy_str_def isDigit_def js_def)

section \<open>An animated sticker without ffmpeg\<close>

lemma mapForReplies_fields [simp]:
  "files (mapForReplies m i s) = files s"
  "history (mapForReplies m i s) = history s"
  "telegramBot (mapForReplies m i s) = telegramBot s"
  by (auto simp: mapForReplies_def split: option.splits)

text \<open>
  Claim C6, as amended. Without ffmpeg, a sticker, animated or not, is first sent as a
  sticker payload carrying the bytes as they came. If that send succeeds, nothing else is
  sent. If it is refused, the same bytes are sent as a photo, and an error of that second
  send leaves the sticker branch. In either case no file is touched and nothing but these
  sends is called: ffmpeg is not run.
\<close>

theorem sticker_without_ffmpeg:
  assumes "\<not> ffmpegAvailable C" and "telegramBot s"
  shows "case forwardSticker C E isAnimated mId mediaBuffer cap topicId s of (r, s') \<Rightarrow>
           files s' = files s
         \<and> (let asSticker = SendMedia Sticker (groupId C) mediaBuffer (mediaOptions topicId None);
                 asPhoto = SendMedia Photo (groupId C) mediaBuffer
                             (mediaOptions topicId
                                (captionOr cap ([0xD83C, 0xDFAD] @ js '' Sticker (as image)'')))
             in case tg_sendMedia E (history s) Sticker (groupId C) mediaBuffer
                       (mediaOptions topicId None) of
                  Inr sent \<Rightarrow> r = None \<and> history s' = history s @ [asSticker]
                | Inl stickerError \<Rightarrow>
                    history s' = history s @ [asSticker, asPhoto]
                    \<and> r = (case tg_sendMedia E (history s @ [asSticker]) Photo (groupId C) mediaBuffer
                                  (mediaOptions topicId
                                     (captionOr cap ([0xD83C, 0xDFAD] @ js '' Sticker (as image)''))) of
                            Inl e \<Rightarrow> Some e | Inr sent \<Rightarrow> None))"
  using assms
  by (auto simp: forwardSticker_def telegramBot_sendMedia_def Let_def
      split: sum.splits prod.splits option.splits)

text \<open>A world that refuses stickers and accepts photos: the photo is sent second and
  recorded for replies.\<close>

theorem sticker_without_ffmpeg_witness:
  "\<not> ffmpegAvailable config_off \<and> telegramBot boot
 \<and> forwardSticker config_off (world_ok\<lparr>tg_sendMedia := (\<lambda>h k chat b opts.
        if k = Sticker then Inl (Error (js ''Bad Request: wrong file type'')) else Inr (Some 321))\<rparr>)
      True (Some (js ''3EB0A1'')) [1, 2] None 5 boot
    = (None, boot\<lparr>chatMessageMapping := [321 \<mapsto> js ''3EB0A1''],
              history := [SendMedia Sticker (- 1001) [1, 2] (mediaOptions 5 None),
                          SendMedia Photo (- 1001) [1, 2]
                            (mediaOptions 5 (Some ([0xD83C, 0xDFAD] @ js '' Sticker (as image)'')))]\<rparr>)"
  using sticker_without_ffmpeg [where C = config_off and s = boot and isAnimated = True
      and E = "world_ok\<lparr>tg_sendMedia := (\<lambda>h k chat b opts.
        if k = Sticker then Inl (Error (js ''Bad Request: wrong file type'')) else Inr (Some 321))\<rparr>"
      and mId = "Some (js ''3EB0A1'')" and mediaBuffer = "[1, 2]" and cap = None and topicId = 5]
  by (simp add: forwardSticker_def telegramBot_sendMedia_def mapForReplies_def captionOr_def
      truthy_str_def world_simps)

text \<open>The claim as stated fails twice: where every send succeeds, the only payload is a
  sticker, not a photo; where every media send is refused, the error of the photo send
  leaves the branch.\<close>

theorem sticker_without_ffmpeg_counterexample:
  "\<not> ffmpegAvailable config_off
 \<and> history (snd (forwardSticker config_off world_ok True (Some (js ''3EB0A1'')) [1, 2] None 5 boot))
     = [SendMedia Sticker (- 1001) [1, 2] (mediaOptions 5 None)]
 \<and> fst (forwardSticker config_off world_media_refused True (Some (js ''3EB0A1'')) [1, 2] None 5 boot)
     = Some (Error (js ''Bad Request: wrong file identifier''))"
  by (simp add: forwardSticker_def telegramBot_sendMedia_def mapForReplies_def captionOr_def
      truthy_str_def world_simps)

section \<open>A message in the status topic that answers no tracked status\<close>

text \<open>
  Claim C9, as amended. A message that is not a command (its text does not start with
  \<open>/\<close>), comes from the configured group, is not written by a bot, arrives in the status
  topic (a truthy thread id equal to \<open>statusTopicId\<close>) while the client is there, and is
  not a reply, or replies to a message id with no entry in the status map, makes the
  listener send the usage hint into the status topic, as a reply to that message, and do
  nothing else: no reaction goes to the source network. A message whose text starts with
  \<open>/\<close> never reaches this code.
\<close>

theorem status_topic_hint:
  assumes "\<not> isCommand msg"
    and "msg_chat_id msg = groupId C" and "\<not> msg_from_is_bot msg"
    and "msg_thread_id msg = Some t" and "t \<noteq> 0" and "statusTopicId s = Some t"
    and "telegramBot s"
    and "msg_reply_to msg = None
         \<or> (\<exists>r. msg_reply_to msg = Some r \<and> statusMessageMapping s r = None)"
  shows "onMessage C E handleCommand toWhatsApp msg s
         = emit (SendMessage (msg_chat_id msg) usageHint (replyOptions t (msg_id msg))) s
       \<and> handleTelegramMessage C E toWhatsApp msg s
         = emit (SendMessage (msg_chat_id msg) usageHint (replyOptions t (msg_id msg))) s"
  using assms
  by (auto simp: onMessage_def handleTelegramMessage_def statusTopicMessage_def
      telegramBot_sendMessage_def truthy_num_def truthy_str_def split: sum.splits)

text \<open>A message that replies to nothing, and one that replies to the untracked message 78.\<close>

theorem status_topic_hint_witness:
  "\<not> isCommand plain_message
 \<and> msg_chat_id plain_message = groupId config_on \<and> \<not> msg_from_is_bot plain_message
 \<and> msg_thread_id plain_message = Some 9 \<and> (9::int) \<noteq> 0 \<and> statusTopicId with_status = Some 9
 \<and> telegramBot with_status
 \<and> statusMessageMapping with_status 78 = None
 \<and> history (onMessage config_on world_ok (\<lambda>m s. s) (\<lambda>i m s. s) plain_message with_status)
     = [SendMessage (- 1001) usageHint (replyOptions 9 80)]
 \<and> history (onMessage config_on world_ok (\<lambda>m s. s) (\<lambda>i m s. s)
              (plain_message\<lparr>msg_reply_to := Some 78\<rparr>) with_status)
     = [SendMessage (- 1001) usageHint (replyOptions 9 80)]"
  using status_topic_hint [where msg = plain_message and C = config_on and t = 9
          and s = with_status and E = world_ok and toWhatsApp = "\<lambda>i m s. s"
          and handleCommand = "\<lambda>m s. s"]
        status_topic_hint [where msg = "plain_message\<lparr>msg_reply_to := Some 78\<rparr>"
          and C = config_on and t = 9
          and s = with_status and E = world_ok and toWhatsApp = "\<lambda>i m s. s"
          and handleCommand = "\<lambda>m s. s"]
  by (simp add: world_simps isCommand_def truthy_str_def)

text \<open>The claim as stated fails for a message written by a bot: the handler returns before
  looking at the topic, and no hint is sent. It fails for a command too: \<open>/ping\<close> typed
  into the status topic is handed to the command handler, whatever that does, and
  \<open>handleTelegramMessage\<close> is not called for it.\<close>

theorem status_topic_hint_counterexample:
  "msg_thread_id (plain_message\<lparr>msg_from_is_bot := True\<rparr>) = statusTopicId with_status
 \<and> msg_reply_to (plain_message\<lparr>msg_from_is_bot := True\<rparr>) = None
 \<and> history (onMessage config_on world_ok (\<lambda>m s. s) (\<lambda>i m s. s)
              (plain_message\<lparr>msg_from_is_bot := True\<rparr>) with_status) = []
 \<and> msg_thread_id ping_message = statusTopicId with_status
 \<and> msg_reply_to ping_message = None
 \<and> (\<forall>handleCommand toWhatsApp.
       onMessage config_on world_ok handleCommand toWhatsApp ping_message with_status
       = handleCommand ping_message with_status)"
  by (simp add: onMessage_def handleTelegramMessage_def isCommand_def truthy_str_def
      ping_message_def world_simps)

end
